theory Spec2Isabelle
  imports Main
begin

section \<open>Request bodies and schema validation\<close>

text \<open>
  A request body is a JSON object. A field of it is either absent (\<open>None\<close>, JavaScript's
  \<open>undefined\<close>) or carries a JSON value. Objects and arrays are never accepted by any
  schema of the controllers, so they share one constructor.
\<close>

datatype json = JNull | JBool bool | JNum int | JStr string | JObject

type_synonym field = "json option"

text \<open>\<open>z.string()\<close>: present and a string.\<close>

definition z_string :: "field \<Rightarrow> string option" where
  "z_string v = (case v of Some (JStr s) \<Rightarrow> Some s | _ \<Rightarrow> None)"

text \<open>\<open>z.string().optional()\<close>: absent, or a string (the empty string included).\<close>

definition z_string_optional :: "field \<Rightarrow> string option option" where
  "z_string_optional v =
     (case v of None \<Rightarrow> Some None | Some (JStr s) \<Rightarrow> Some (Some s) | _ \<Rightarrow> None)"

text \<open>\<open>z.boolean().default(d)\<close>.\<close>

definition z_boolean_default :: "bool \<Rightarrow> field \<Rightarrow> bool option" where
  "z_boolean_default d v =
     (case v of None \<Rightarrow> Some d | Some (JBool b) \<Rightarrow> Some b | _ \<Rightarrow> None)"

text \<open>
  JavaScript truthiness of an optional string, as \<open>if (x)\<close> and \<open>filter(Boolean)\<close> see
  it: \<open>undefined\<close> and the empty string are falsy.
\<close>

definition truthy :: "string option \<Rightarrow> bool" where
  "truthy v = (case v of None \<Rightarrow> False | Some s \<Rightarrow> s \<noteq> [])"

text \<open>
  A character of a string stands for one UTF-16 code unit below 256, as JavaScript
  strings hold them. Of the characters that \<open>\s\<close> and \<open>String.prototype.trim\<close> treat
  as white space, those in that range are the space, TAB, LF, VT, FF, CR and the no-break
  space U+00A0; the others (U+1680, U+2000 to U+200A, U+2028, U+2029, U+202F, U+205F,
  U+3000, U+FEFF) lie beyond it.
\<close>

definition js_space :: "char \<Rightarrow> bool" where
  "js_space c =
     (c \<in> set [CHR '' '', CHR 0x09, CHR 0x0A, CHR 0x0B, CHR 0x0C, CHR 0x0D, CHR 0xA0])"

text \<open>
  \<open>z.string().cuid()\<close> tests the string against \<open>/^c[^\s-]{8,}$/i\<close>.
\<close>

definition is_cuid :: "string \<Rightarrow> bool" where
  "is_cuid s =
     (case s of
        [] \<Rightarrow> False
      | c # rest \<Rightarrow>
          (c = CHR ''c'' \<or> c = CHR ''C'') \<and> 8 \<le> length rest \<and>
          list_all (\<lambda>x. \<not> js_space x \<and> x \<noteq> CHR ''-'') rest)"

definition z_cuid :: "field \<Rightarrow> string option" where
  "z_cuid v = (case v of Some (JStr s) \<Rightarrow> (if is_cuid s then Some s else None) | _ \<Rightarrow> None)"

definition z_cuid_optional :: "field \<Rightarrow> string option option" where
  "z_cuid_optional v =
     (case v of
        None \<Rightarrow> Some None
      | Some (JStr s) \<Rightarrow> (if is_cuid s then Some (Some s) else None)
      | _ \<Rightarrow> None)"

section \<open>Outcome of a handler\<close>

text \<open>
  A handler either answers with a status and a short message, or lets an exception
  escape. Handlers written with \<open>try\<close>/\<open>catch\<close> always answer; handlers wrapped in
  \<open>asyncHandler\<close> hand an escaping exception to the next error middleware (\<open>Raised\<close>).
\<close>

datatype exn = ZodError | PrismaError | SocketNotInitialized | ProfileError

datatype reply = Reply nat string | Raised exn

fun status_of :: "reply \<Rightarrow> nat option" where
  "status_of (Reply n m) = Some n"
| "status_of (Raised e) = None"

section \<open>The data store\<close>

text \<open>The tables of the Prisma schema, with the columns the controllers read or write.\<close>

record user_row =
  u_id :: string
  githubId :: string
  username :: string
  email :: string
  bio :: "string option"
  u_createdAt :: int
  u_updatedAt :: int

record snippet_row =
  sn_id :: string
  sn_authorId :: string
  sn_isPublic :: bool

record doc_row =
  d_id :: string
  d_title :: string
  d_content :: string
  d_isPublic :: bool
  d_authorId :: string
  d_updatedAt :: int

record bug_row =
  bg_id :: string
  bg_authorId :: string
  expiresAt :: int

record comment_row =
  c_id :: string
  c_content :: string
  c_authorId :: string
  c_snippetId :: "string option"
  c_docId :: "string option"
  c_bugId :: "string option"
  c_parentId :: "string option"

record like_row =
  l_id :: string
  l_userId :: string
  l_snippetId :: "string option"
  l_docId :: "string option"
  l_bugId :: "string option"

record bookmark_row =
  b_id :: string
  b_userId :: string
  b_snippetId :: "string option"
  b_docId :: "string option"
  b_bugId :: "string option"

record follow_row =
  f_id :: string
  followerId :: string
  followingId :: string

record block_row =
  bl_id :: string
  blockerId :: string
  blockedId :: string

datatype report_reason =
  SPAM | HARASSMENT | INAPPROPRIATE_CONTENT | COPYRIGHT_VIOLATION | FAKE_ACCOUNT | OTHER

record report_row =
  r_id :: string
  r_reason :: report_reason
  r_description :: "string option"
  reporterId :: string
  reportedId :: string
  r_snippetId :: "string option"
  r_docId :: "string option"
  r_bugId :: "string option"
  r_commentId :: "string option"

datatype notification_type = LIKE | COMMENT | FOLLOW | REPLY | BOOKMARK | BUG_STATUS_UPDATE

record notification_row =
  n_id :: string
  n_type :: notification_type
  recipientId :: string
  senderId :: string
  n_snippetId :: "string option"
  n_docId :: "string option"
  n_bugId :: "string option"
  n_commentId :: "string option"

text \<open>
  The store also carries the counter behind \<open>@default(cuid())\<close>, whether the socket
  server has been initialised (\<open>getIO\<close> throws otherwise), and the events emitted to
  rooms so far (room, event name).
\<close>

record store =
  users :: "user_row list"
  snippets :: "snippet_row list"
  docs :: "doc_row list"
  bugs :: "bug_row list"
  comments :: "comment_row list"
  likes :: "like_row list"
  bookmarks :: "bookmark_row list"
  follows :: "follow_row list"
  blockedUsers :: "block_row list"
  reports :: "report_row list"
  notifications :: "notification_row list"
  next_id :: nat
  io_ready :: bool
  emitted :: "(string \<times> string) list"

text \<open>
  \<open>cuid()\<close> is a library generator of collision-resistant ids; here the n-th generated id
  is a fixed injective function of the counter whose values match the cuid pattern.
\<close>

definition cuid :: "nat \<Rightarrow> string" where
  "cuid n = CHR ''c'' # replicate 8 (CHR ''0'') @ replicate n (CHR ''1'')"

definition user_exists :: "string \<Rightarrow> store \<Rightarrow> bool" where
  "user_exists uid s = list_ex (\<lambda>u. u_id u = uid) (users s)"

definition user_findUnique :: "string \<Rightarrow> store \<Rightarrow> user_row option" where
  "user_findUnique uid s = find (\<lambda>u. u_id u = uid) (users s)"

section \<open>Socket server handle\<close>

definition getIO :: "store \<Rightarrow> exn + unit" where
  "getIO s = (if io_ready s then Inr () else Inl SocketNotInitialized)"

definition emit_to :: "string \<Rightarrow> string \<Rightarrow> store \<Rightarrow> store" where
  "emit_to room event s = s\<lparr>emitted := emitted s @ [(room, event)]\<rparr>"

section \<open>Notification service\<close>

text \<open>
  Modelled from the spec: \<open>services/notificationService.createNotification\<close> is not among
  the sources. Section 4.5 of the specification says of it only that it persists a row and
  is the sole writer of the Notification table; the model appends the row it is given
  under a freshly generated id.
\<close>

definition createNotification ::
  "notification_type \<Rightarrow> string \<Rightarrow> string \<Rightarrow> string option \<Rightarrow> string option \<Rightarrow> string option \<Rightarrow>
     string option \<Rightarrow> store \<Rightarrow> store" where
  "createNotification ty recipient sender snip doc bug com s =
     s\<lparr>notifications := notifications s @
          [\<lparr>n_id = cuid (next_id s), n_type = ty, recipientId = recipient, senderId = sender,
            n_snippetId = snip, n_docId = doc, n_bugId = bug, n_commentId = com\<rparr>],
       next_id := Suc (next_id s)\<rparr>"

section \<open>Follow controller\<close>

definition is_follow :: "string \<Rightarrow> string \<Rightarrow> follow_row \<Rightarrow> bool" where
  "is_follow a b r = (followerId r = a \<and> followingId r = b)"

text \<open>\<open>prisma.follow.findUnique\<close> on the compound key (followerId, followingId).\<close>

definition follow_findUnique :: "string \<Rightarrow> string \<Rightarrow> store \<Rightarrow> follow_row option" where
  "follow_findUnique a b s = find (is_follow a b) (follows s)"

text \<open>
  \<open>prisma.follow.create\<close>: both ends are foreign keys into the user table and the pair is
  unique; a violated constraint makes the call throw.
\<close>

definition follow_create :: "string \<Rightarrow> string \<Rightarrow> store \<Rightarrow> exn + (follow_row \<times> store)" where
  "follow_create a b s =
     (if user_exists a s \<and> user_exists b s \<and> follow_findUnique a b s = None
      then (let row = \<lparr>f_id = cuid (next_id s), followerId = a, followingId = b\<rparr>
            in Inr (row, s\<lparr>follows := follows s @ [row], next_id := Suc (next_id s)\<rparr>))
      else Inl PrismaError)"

text \<open>\<open>prisma.follow.delete\<close> by id throws when no row has the id.\<close>

definition follow_delete :: "string \<Rightarrow> store \<Rightarrow> exn + store" where
  "follow_delete i s =
     (if list_ex (\<lambda>r. f_id r = i) (follows s)
      then Inr (s\<lparr>follows := filter (\<lambda>r. f_id r \<noteq> i) (follows s)\<rparr>)
      else Inl PrismaError)"

text \<open>
  \<open>toggleFollow\<close>: \<open>followerId\<close> is the authenticated caller (the route runs
  \<open>requireAuth\<close> first), \<open>followingId\<close> the path parameter. Every exception is caught and
  answered with 500; what was written before the exception stays written.
\<close>

definition toggleFollow :: "string \<Rightarrow> string \<Rightarrow> store \<Rightarrow> reply \<times> store" where
  "toggleFollow follower following s =
     (if follower = following then (Reply 400 ''Cannot follow yourself'', s)
      else
        (case user_findUnique following s of
           None \<Rightarrow> (Reply 404 ''User not found'', s)
         | Some targetUser \<Rightarrow>
             (case follow_findUnique follower following s of
                Some existingFollow \<Rightarrow>
                  (case follow_delete (f_id existingFollow) s of
                     Inl e \<Rightarrow> (Reply 500 ''Internal server error'', s)
                   | Inr s1 \<Rightarrow> (Reply 200 ''Unfollowed successfully'', s1))
              | None \<Rightarrow>
                  (case follow_create follower following s of
                     Inl e \<Rightarrow> (Reply 500 ''Internal server error'', s)
                   | Inr (follow, s1) \<Rightarrow>
                       (let s2 = createNotification FOLLOW following follower
                                   None None None None s1
                        in case getIO s2 of
                             Inl e \<Rightarrow> (Reply 500 ''Internal server error'', s2)
                           | Inr io \<Rightarrow>
                               (Reply 200 ''Followed successfully'',
                                emit_to following ''new-follower'' s2))))))"

text \<open>The follow edge of an ordered pair, and n successive toggle calls by one caller.\<close>

definition following_edge :: "string \<Rightarrow> string \<Rightarrow> store \<Rightarrow> bool" where
  "following_edge a b s = list_ex (is_follow a b) (follows s)"

primrec toggle_times :: "nat \<Rightarrow> string \<Rightarrow> string \<Rightarrow> store \<Rightarrow> store" where
  "toggle_times 0 a b s = s"
| "toggle_times (Suc n) a b s = snd (toggleFollow a b (toggle_times n a b s))"

definition follow_notifications :: "string \<Rightarrow> string \<Rightarrow> store \<Rightarrow> notification_row list" where
  "follow_notifications a b s =
     filter (\<lambda>n. n_type n = FOLLOW \<and> senderId n = a \<and> recipientId n = b) (notifications s)"

section \<open>Moderation controller\<close>

subsection \<open>Block toggle\<close>

record block_body =
  bb_userId :: field

text \<open>\<open>blockSchema = z.object({ userId: z.string().cuid() })\<close>; \<open>parse\<close> throws on failure.\<close>

definition blockSchema_parse :: "block_body \<Rightarrow> exn + string" where
  "blockSchema_parse body =
     (case z_cuid (bb_userId body) of None \<Rightarrow> Inl ZodError | Some u \<Rightarrow> Inr u)"

definition is_block :: "string \<Rightarrow> string \<Rightarrow> block_row \<Rightarrow> bool" where
  "is_block a b r = (blockerId r = a \<and> blockedId r = b)"

definition block_findFirst :: "string \<Rightarrow> string \<Rightarrow> store \<Rightarrow> block_row option" where
  "block_findFirst a b s = find (is_block a b) (blockedUsers s)"

definition block_create :: "string \<Rightarrow> string \<Rightarrow> store \<Rightarrow> exn + store" where
  "block_create a b s =
     (if user_exists a s \<and> user_exists b s \<and> block_findFirst a b s = None
      then Inr (s\<lparr>blockedUsers := blockedUsers s @
                    [\<lparr>bl_id = cuid (next_id s), blockerId = a, blockedId = b\<rparr>],
                 next_id := Suc (next_id s)\<rparr>)
      else Inl PrismaError)"

definition block_delete :: "string \<Rightarrow> store \<Rightarrow> exn + store" where
  "block_delete i s =
     (if list_ex (\<lambda>r. bl_id r = i) (blockedUsers s)
      then Inr (s\<lparr>blockedUsers := filter (\<lambda>r. bl_id r \<noteq> i) (blockedUsers s)\<rparr>)
      else Inl PrismaError)"

text \<open>
  \<open>toggleBlock\<close>: the body is parsed inside the \<open>try\<close>; the single \<open>catch\<close> answers
  every exception, a validation error included, with 500.
\<close>

definition toggleBlock :: "string \<Rightarrow> block_body \<Rightarrow> store \<Rightarrow> reply \<times> store" where
  "toggleBlock blocker body s =
     (case blockSchema_parse body of
        Inl e \<Rightarrow> (Reply 500 ''Failed to toggle block status'', s)
      | Inr userId \<Rightarrow>
          (if userId = blocker then (Reply 400 ''Cannot block yourself'', s)
           else
             (case block_findFirst blocker userId s of
                Some existingBlock \<Rightarrow>
                  (case block_delete (bl_id existingBlock) s of
                     Inl e \<Rightarrow> (Reply 500 ''Failed to toggle block status'', s)
                   | Inr s1 \<Rightarrow> (Reply 200 ''User unblocked successfully'', s1))
              | None \<Rightarrow>
                  (case block_create blocker userId s of
                     Inl e \<Rightarrow> (Reply 500 ''Failed to toggle block status'', s)
                   | Inr s1 \<Rightarrow> (Reply 200 ''User blocked successfully'', s1)))))"

subsection \<open>Report creation\<close>

record report_body =
  rb_reportedUserId :: field
  rb_reason :: field
  rb_description :: field
  rb_contentType :: field
  rb_contentId :: field

datatype content_type = CSnippet | CDoc | CBug | CComment

record report_data =
  v_reportedUserId :: "string option"
  v_reason :: report_reason
  v_description :: "string option"
  v_contentType :: "content_type option"
  v_contentId :: "string option"

definition z_reason :: "field \<Rightarrow> report_reason option" where
  "z_reason v =
     (case v of
        Some (JStr s) \<Rightarrow>
          (if s = ''SPAM'' then Some SPAM
           else if s = ''HARASSMENT'' then Some HARASSMENT
           else if s = ''INAPPROPRIATE_CONTENT'' then Some INAPPROPRIATE_CONTENT
           else if s = ''COPYRIGHT_VIOLATION'' then Some COPYRIGHT_VIOLATION
           else if s = ''FAKE_ACCOUNT'' then Some FAKE_ACCOUNT
           else if s = ''OTHER'' then Some OTHER
           else None)
      | _ \<Rightarrow> None)"

definition z_contentType_optional :: "field \<Rightarrow> content_type option option" where
  "z_contentType_optional v =
     (case v of
        None \<Rightarrow> Some None
      | Some (JStr s) \<Rightarrow>
          (if s = ''snippet'' then Some (Some CSnippet)
           else if s = ''doc'' then Some (Some CDoc)
           else if s = ''bug'' then Some (Some CBug)
           else if s = ''comment'' then Some (Some CComment)
           else None)
      | _ \<Rightarrow> None)"

text \<open>\<open>z.string().max(500).optional()\<close>.\<close>

definition z_description :: "field \<Rightarrow> string option option" where
  "z_description v =
     (case v of
        None \<Rightarrow> Some None
      | Some (JStr s) \<Rightarrow> (if length s \<le> 500 then Some (Some s) else None)
      | _ \<Rightarrow> None)"

definition reportSchema_parse :: "report_body \<Rightarrow> exn + report_data" where
  "reportSchema_parse body =
     (case z_cuid_optional (rb_reportedUserId body) of
        None \<Rightarrow> Inl ZodError
      | Some ru \<Rightarrow>
     (case z_reason (rb_reason body) of
        None \<Rightarrow> Inl ZodError
      | Some rs \<Rightarrow>
     (case z_description (rb_description body) of
        None \<Rightarrow> Inl ZodError
      | Some ds \<Rightarrow>
     (case z_contentType_optional (rb_contentType body) of
        None \<Rightarrow> Inl ZodError
      | Some ct \<Rightarrow>
     (case z_cuid_optional (rb_contentId body) of
        None \<Rightarrow> Inl ZodError
      | Some ci \<Rightarrow>
          Inr \<lparr>v_reportedUserId = ru, v_reason = rs, v_description = ds,
               v_contentType = ct, v_contentId = ci\<rparr>)))))"

text \<open>
  \<open>prisma[contentType].findUnique({ where: { id }, select: { authorId: true } })\<close>
  followed by \<open>content?.authorId\<close>: the author of the row, if the row exists.
\<close>

definition content_author :: "content_type \<Rightarrow> string \<Rightarrow> store \<Rightarrow> string option" where
  "content_author ct i s =
     (case ct of
        CSnippet \<Rightarrow> map_option sn_authorId (find (\<lambda>r. sn_id r = i) (snippets s))
      | CDoc \<Rightarrow> map_option d_authorId (find (\<lambda>r. d_id r = i) (docs s))
      | CBug \<Rightarrow> map_option bg_authorId (find (\<lambda>r. bg_id r = i) (bugs s))
      | CComment \<Rightarrow> map_option c_authorId (find (\<lambda>r. c_id r = i) (comments s)))"

text \<open>A nullable foreign key holds when it is null or names an existing row.\<close>

definition fk_ok :: "string list \<Rightarrow> string option \<Rightarrow> bool" where
  "fk_ok ids v = (case v of None \<Rightarrow> True | Some i \<Rightarrow> i \<in> set ids)"

definition snippet_ids :: "store \<Rightarrow> string list" where
  "snippet_ids s = map sn_id (snippets s)"

definition doc_ids :: "store \<Rightarrow> string list" where
  "doc_ids s = map d_id (docs s)"

definition bug_ids :: "store \<Rightarrow> string list" where
  "bug_ids s = map bg_id (bugs s)"

definition comment_ids :: "store \<Rightarrow> string list" where
  "comment_ids s = map c_id (comments s)"

text \<open>
  \<open>reportData[`${contentType}Id`] = contentId\<close>: the content reference lands in the
  column named after the content type.
\<close>

definition content_column :: "content_type \<Rightarrow> content_type option \<Rightarrow> string option \<Rightarrow> string option" where
  "content_column col ct ci = (if ct = Some col then ci else None)"

text \<open>\<open>prisma.report.create\<close>; it throws when a foreign key names no row.\<close>

definition report_create :: "report_row \<Rightarrow> store \<Rightarrow> exn + store" where
  "report_create row s =
     (if user_exists (reporterId row) s \<and> user_exists (reportedId row) s \<and>
         fk_ok (snippet_ids s) (r_snippetId row) \<and> fk_ok (doc_ids s) (r_docId row) \<and>
         fk_ok (bug_ids s) (r_bugId row) \<and> fk_ok (comment_ids s) (r_commentId row)
      then Inr (s\<lparr>reports := reports s @ [row], next_id := Suc (next_id s)\<rparr>)
      else Inl PrismaError)"

text \<open>
  The tail of \<open>createReport\<close>, from \<open>if (!finalReportedId)\<close> on: \<open>target\<close> is the content
  reference written into the row (none when no content is reported).
\<close>

definition submit_report ::
  "string \<Rightarrow> report_data \<Rightarrow> string option \<Rightarrow> (content_type option \<times> string option) \<Rightarrow> store \<Rightarrow>
     reply \<times> store" where
  "submit_report reporter v finalReportedId target s =
     (case finalReportedId of
        None \<Rightarrow> (Reply 400 ''A reported user ID is required when not reporting content.'', s)
      | Some reported \<Rightarrow>
          (if reported = [] then
             (Reply 400 ''A reported user ID is required when not reporting content.'', s)
           else
             (case report_create
                     \<lparr>r_id = cuid (next_id s), r_reason = v_reason v,
                      r_description = v_description v, reporterId = reporter,
                      reportedId = reported,
                      r_snippetId = content_column CSnippet (fst target) (snd target),
                      r_docId = content_column CDoc (fst target) (snd target),
                      r_bugId = content_column CBug (fst target) (snd target),
                      r_commentId = content_column CComment (fst target) (snd target)\<rparr> s of
                Inl e \<Rightarrow> (Reply 500 ''Failed to submit report'', s)
              | Inr s1 \<Rightarrow> (Reply 201 ''Report submitted successfully'', s1))))"

text \<open>
  \<open>createReport\<close>. The content branch runs when both \<open>contentType\<close> and \<open>contentId\<close>
  are truthy; a validated \<open>contentType\<close> is one of four non-empty names.
\<close>

definition createReport :: "string \<Rightarrow> report_body \<Rightarrow> store \<Rightarrow> reply \<times> store" where
  "createReport reporter body s =
     (case reportSchema_parse body of
        Inl e \<Rightarrow> (Reply 500 ''Failed to submit report'', s)
      | Inr v \<Rightarrow>
          (if truthy (v_reportedUserId v) \<and> v_reportedUserId v = Some reporter
           then (Reply 400 ''Cannot report yourself'', s)
           else
             (case v_contentType v of
                None \<Rightarrow> submit_report reporter v (v_reportedUserId v) (None, None) s
              | Some ct \<Rightarrow>
                  (case v_contentId v of
                     None \<Rightarrow> submit_report reporter v (v_reportedUserId v) (None, None) s
                   | Some ci \<Rightarrow>
                       (if ci = [] then
                          submit_report reporter v (v_reportedUserId v) (None, None) s
                        else
                          (let contentAuthorId = content_author ct ci s in
                           if truthy contentAuthorId \<and> contentAuthorId = Some reporter
                           then (Reply 400 ''Cannot report your own content'', s)
                           else submit_report reporter v
                                  (if truthy contentAuthorId then contentAuthorId
                                   else v_reportedUserId v)
                                  (Some ct, Some ci) s))))))"

section \<open>Comment controller\<close>

record comment_body =
  cb_content :: field
  cb_snippetId :: field
  cb_docId :: field
  cb_bugId :: field
  cb_parentId :: field

record comment_data =
  cd_content :: string
  cd_snippetId :: "string option"
  cd_docId :: "string option"
  cd_bugId :: "string option"
  cd_parentId :: "string option"

text \<open>
  The refinement of \<open>commentSchema\<close>:
  \<open>[snippetId, docId, bugId].filter(Boolean).length === 1\<close>.
\<close>

definition targets :: "comment_data \<Rightarrow> string option list" where
  "targets v = filter truthy [cd_snippetId v, cd_docId v, cd_bugId v]"

text \<open>
  \<open>commentSchema.parse\<close>: the object schema first (\<open>content\<close> a string of 1 to 1000
  characters, the four ids optional strings), then the refinement.
\<close>

definition commentSchema_parse :: "comment_body \<Rightarrow> exn + comment_data" where
  "commentSchema_parse body =
     (case z_string (cb_content body) of
        None \<Rightarrow> Inl ZodError
      | Some ct \<Rightarrow>
     (case z_string_optional (cb_snippetId body) of
        None \<Rightarrow> Inl ZodError
      | Some sn \<Rightarrow>
     (case z_string_optional (cb_docId body) of
        None \<Rightarrow> Inl ZodError
      | Some dc \<Rightarrow>
     (case z_string_optional (cb_bugId body) of
        None \<Rightarrow> Inl ZodError
      | Some bg \<Rightarrow>
     (case z_string_optional (cb_parentId body) of
        None \<Rightarrow> Inl ZodError
      | Some pa \<Rightarrow>
          (let v = \<lparr>cd_content = ct, cd_snippetId = sn, cd_docId = dc, cd_bugId = bg,
                    cd_parentId = pa\<rparr>
           in if 1 \<le> length ct \<and> length ct \<le> 1000 \<and> length (targets v) = 1
              then Inr v else Inl ZodError))))))"

text \<open>
  The three target checks of \<open>createComment\<close>. Each runs only when its id is truthy,
  answers at once when the target is missing or closed to comments, and otherwise
  overwrites the pair (contentId, contentAuthorId).
\<close>

definition check_snippet ::
  "comment_data \<Rightarrow> store \<Rightarrow> string option \<times> string option \<Rightarrow>
     reply + (string option \<times> string option)" where
  "check_snippet v s acc =
     (if truthy (cd_snippetId v) then
        (case find (\<lambda>r. Some (sn_id r) = cd_snippetId v) (snippets s) of
           None \<Rightarrow> Inl (Reply 404 ''Snippet not found'')
         | Some snippet \<Rightarrow>
             (if sn_isPublic snippet then Inr (cd_snippetId v, Some (sn_authorId snippet))
              else Inl (Reply 403 ''Cannot comment on private snippet'')))
      else Inr acc)"

definition check_doc ::
  "comment_data \<Rightarrow> store \<Rightarrow> string option \<times> string option \<Rightarrow>
     reply + (string option \<times> string option)" where
  "check_doc v s acc =
     (if truthy (cd_docId v) then
        (case find (\<lambda>r. Some (d_id r) = cd_docId v) (docs s) of
           None \<Rightarrow> Inl (Reply 404 ''Doc not found'')
         | Some doc \<Rightarrow>
             (if d_isPublic doc then Inr (cd_docId v, Some (d_authorId doc))
              else Inl (Reply 403 ''Cannot comment on private doc'')))
      else Inr acc)"

text \<open>\<open>now\<close> is the value of \<open>new Date()\<close>, in milliseconds, when the check runs.\<close>

definition check_bug ::
  "int \<Rightarrow> comment_data \<Rightarrow> store \<Rightarrow> string option \<times> string option \<Rightarrow>
     reply + (string option \<times> string option)" where
  "check_bug now v s acc =
     (if truthy (cd_bugId v) then
        (case find (\<lambda>r. Some (bg_id r) = cd_bugId v) (bugs s) of
           None \<Rightarrow> Inl (Reply 404 ''Bug not found'')
         | Some bug \<Rightarrow>
             (if expiresAt bug < now then Inl (Reply 410 ''Bug report has expired'')
              else Inr (cd_bugId v, Some (bg_authorId bug))))
      else Inr acc)"

text \<open>
  \<open>prisma.comment.create({ data: { ...validatedData, authorId } })\<close>: the author and
  every non-null reference are foreign keys; a reference to no row makes it throw.
\<close>

definition comment_create :: "string \<Rightarrow> comment_data \<Rightarrow> store \<Rightarrow> exn + (comment_row \<times> store)" where
  "comment_create author v s =
     (if user_exists author s \<and>
         fk_ok (snippet_ids s) (cd_snippetId v) \<and> fk_ok (doc_ids s) (cd_docId v) \<and>
         fk_ok (bug_ids s) (cd_bugId v) \<and> fk_ok (comment_ids s) (cd_parentId v)
      then (let row = \<lparr>c_id = cuid (next_id s), c_content = cd_content v, c_authorId = author,
                       c_snippetId = cd_snippetId v, c_docId = cd_docId v,
                       c_bugId = cd_bugId v, c_parentId = cd_parentId v\<rparr>
            in Inr (row, s\<lparr>comments := comments s @ [row], next_id := Suc (next_id s)\<rparr>))
      else Inl PrismaError)"

text \<open>What follows the three checks: the insert, the notification, the broadcast.\<close>

definition post_comment ::
  "string \<Rightarrow> comment_data \<Rightarrow> string option \<times> string option \<Rightarrow> store \<Rightarrow> reply \<times> store" where
  "post_comment sender v found s =
     (case comment_create sender v s of
        Inl e \<Rightarrow> (Reply 500 ''Internal server error'', s)
      | Inr (comment, s1) \<Rightarrow>
          (let contentId = fst found;
               contentAuthorId = snd found;
               s2 = (if truthy contentAuthorId \<and> contentAuthorId \<noteq> Some sender
                     then createNotification
                            (if truthy (cd_parentId v) then REPLY else COMMENT)
                            (case contentAuthorId of None \<Rightarrow> [] | Some a \<Rightarrow> a) sender
                            (cd_snippetId v) (cd_docId v) (cd_bugId v) (Some (c_id comment)) s1
                     else s1)
           in if truthy contentId then
                (case getIO s2 of
                   Inl e \<Rightarrow> (Reply 500 ''Internal server error'', s2)
                 | Inr io \<Rightarrow>
                     (Reply 201 ''comment'',
                      emit_to (case contentId of None \<Rightarrow> [] | Some c \<Rightarrow> c) ''new_comment'' s2))
              else (Reply 201 ''comment'', s2)))"

text \<open>
  \<open>createComment\<close>: a \<open>ZodError\<close> is answered with 400, any other exception with 500.
\<close>

definition createComment :: "string \<Rightarrow> int \<Rightarrow> comment_body \<Rightarrow> store \<Rightarrow> reply \<times> store" where
  "createComment sender now body s =
     (case commentSchema_parse body of
        Inl e \<Rightarrow> (Reply 400 ''Invalid data'', s)
      | Inr v \<Rightarrow>
          (case check_snippet v s (None, None) of
             Inl r \<Rightarrow> (r, s)
           | Inr acc1 \<Rightarrow>
               (case check_doc v s acc1 of
                  Inl r \<Rightarrow> (r, s)
                | Inr acc2 \<Rightarrow>
                    (case check_bug now v s acc2 of
                       Inl r \<Rightarrow> (r, s)
                     | Inr acc3 \<Rightarrow> post_comment sender v acc3 s))))"

text \<open>
  Two readings of "the body sets a target id": the key is present, whatever its value;
  or the key is present with a value other than the empty string.
\<close>

definition present :: "field \<Rightarrow> bool" where
  "present v = (v \<noteq> None)"

definition sets_target :: "field \<Rightarrow> bool" where
  "sets_target v = (case v of None \<Rightarrow> False | Some (JStr x) \<Rightarrow> x \<noteq> [] | Some other \<Rightarrow> True)"

section \<open>Doc controller\<close>

record doc_body =
  db_title :: field
  db_content :: field
  db_isPublic :: field

record doc_data =
  dd_title :: string
  dd_content :: string
  dd_isPublic :: bool

text \<open>
  \<open>docSchema.parse\<close>: \<open>title\<close> a string of 1 to 255 characters, \<open>content\<close> a non-empty
  string, \<open>isPublic\<close> a boolean that defaults to true.
\<close>

definition docSchema_parse :: "doc_body \<Rightarrow> exn + doc_data" where
  "docSchema_parse body =
     (case z_string (db_title body) of
        None \<Rightarrow> Inl ZodError
      | Some t \<Rightarrow>
     (case z_string (db_content body) of
        None \<Rightarrow> Inl ZodError
      | Some c \<Rightarrow>
     (case z_boolean_default True (db_isPublic body) of
        None \<Rightarrow> Inl ZodError
      | Some p \<Rightarrow>
          (if 1 \<le> length t \<and> length t \<le> 255 \<and> 1 \<le> length c
           then Inr \<lparr>dd_title = t, dd_content = c, dd_isPublic = p\<rparr>
           else Inl ZodError))))"

definition doc_findUnique :: "string \<Rightarrow> store \<Rightarrow> doc_row option" where
  "doc_findUnique i s = find (\<lambda>d. d_id d = i) (docs s)"

text \<open>
  \<open>getDocById\<close> reads only. The caller is optional (\<open>(req.user as any)?.id\<close>); an
  anonymous caller is \<open>None\<close>, which differs from every author id.
\<close>

definition getDocById :: "string option \<Rightarrow> string \<Rightarrow> store \<Rightarrow> reply" where
  "getDocById currentUserId i s =
     (case doc_findUnique i s of
        None \<Rightarrow> Reply 404 ''Document not found''
      | Some doc \<Rightarrow>
          (if \<not> d_isPublic doc \<and> Some (d_authorId doc) \<noteq> currentUserId
           then Reply 403 ''Access denied to this document''
           else Reply 200 ''doc''))"

definition doc_update :: "string \<Rightarrow> doc_data \<Rightarrow> int \<Rightarrow> store \<Rightarrow> exn + store" where
  "doc_update i v now s =
     (if list_ex (\<lambda>d. d_id d = i) (docs s)
      then Inr (s\<lparr>docs := map (\<lambda>d. if d_id d = i
                                     then d\<lparr>d_title := dd_title v, d_content := dd_content v,
                                            d_isPublic := dd_isPublic v, d_updatedAt := now\<rparr>
                                     else d) (docs s)\<rparr>)
      else Inl PrismaError)"

text \<open>
  \<open>updateDoc\<close> is wrapped in \<open>asyncHandler\<close> and has no \<open>try\<close>: the body is parsed
  before the document is looked up, and a validation error escapes the handler. The
  caller is authenticated (the route is private).
\<close>

definition updateDoc :: "string \<Rightarrow> string \<Rightarrow> doc_body \<Rightarrow> int \<Rightarrow> store \<Rightarrow> reply \<times> store" where
  "updateDoc userId i body now s =
     (case docSchema_parse body of
        Inl e \<Rightarrow> (Raised e, s)
      | Inr validatedData \<Rightarrow>
          (case doc_findUnique i s of
             None \<Rightarrow> (Reply 404 ''Document not found'', s)
           | Some doc \<Rightarrow>
               (if d_authorId doc \<noteq> userId
                then (Reply 403 ''Not authorized to update this document'', s)
                else
                  (case doc_update i validatedData now s of
                     Inl e \<Rightarrow> (Raised e, s)
                   | Inr s1 \<Rightarrow> (Reply 200 ''doc'', s1)))))"

subsection \<open>Deletes and their referential actions\<close>

text \<open>
  Every relation of the schema is declared \<open>onDelete: Cascade\<close>, so the database removes
  the rows that reference a removed row. Comments reference comments (\<open>parentId\<close>):
  \<open>purge_comments\<close> removes the comments that satisfy the predicate, then their
  replies, then the replies of those, until nothing more is removed.
\<close>

definition reply_to :: "comment_row list \<Rightarrow> comment_row \<Rightarrow> bool" where
  "reply_to dead c =
     (case c_parentId c of None \<Rightarrow> False | Some p \<Rightarrow> p \<in> set (map c_id dead))"

function purge_comments :: "(comment_row \<Rightarrow> bool) \<Rightarrow> comment_row list \<Rightarrow> comment_row list" where
  "purge_comments P cs =
     (if filter P cs = [] then cs
      else purge_comments (reply_to (filter P cs)) (filter (\<lambda>c. \<not> P c) cs))"
  by pat_completeness auto
termination
proof (relation "measure (\<lambda>(P, cs). length cs)")
  show "wf (measure (\<lambda>(P, cs). length cs))" by simp
next
  fix P :: "comment_row \<Rightarrow> bool" and cs :: "comment_row list"
  assume "filter P cs \<noteq> []"
  then obtain x where "x \<in> set cs" "P x"
    by (auto simp: filter_empty_conv)
  then have "length (filter (\<lambda>c. \<not> P c) cs) < length cs"
    by (intro length_filter_less) auto
  then show "((reply_to (filter P cs), filter (\<lambda>c. \<not> P c) cs), (P, cs))
               \<in> measure (\<lambda>(P, cs). length cs)"
    by simp
qed

declare purge_comments.simps [simp del]

text \<open>
  \<open>prisma.comment.deleteMany({ where })\<close>: the matching comments and, by cascade, their
  reply threads and the reports and notifications that reference a removed comment.
\<close>

definition refers_to :: "string list \<Rightarrow> string option \<Rightarrow> bool" where
  "refers_to ids v = (case v of None \<Rightarrow> False | Some i \<Rightarrow> i \<in> set ids)"

definition comment_deleteMany :: "(comment_row \<Rightarrow> bool) \<Rightarrow> store \<Rightarrow> store" where
  "comment_deleteMany P s =
     (let kept = purge_comments P (comments s);
          gone = map c_id (filter (\<lambda>c. c \<notin> set kept) (comments s))
      in s\<lparr>comments := kept,
           reports := filter (\<lambda>r. \<not> refers_to gone (r_commentId r)) (reports s),
           notifications :=
             filter (\<lambda>n. \<not> refers_to gone (n_commentId n)) (notifications s)\<rparr>)"

definition like_deleteMany :: "(like_row \<Rightarrow> bool) \<Rightarrow> store \<Rightarrow> store" where
  "like_deleteMany P s = s\<lparr>likes := filter (\<lambda>l. \<not> P l) (likes s)\<rparr>"

definition bookmark_deleteMany :: "(bookmark_row \<Rightarrow> bool) \<Rightarrow> store \<Rightarrow> store" where
  "bookmark_deleteMany P s = s\<lparr>bookmarks := filter (\<lambda>b. \<not> P b) (bookmarks s)\<rparr>"

text \<open>
  Removing the document row \<open>i\<close>: by cascade every comment, like, bookmark, report and
  notification whose \<open>docId\<close> references it goes with it.
\<close>

definition doc_cascade :: "string \<Rightarrow> store \<Rightarrow> store" where
  "doc_cascade i s =
     (let s1 = comment_deleteMany (\<lambda>c. c_docId c = Some i) s;
          s2 = like_deleteMany (\<lambda>l. l_docId l = Some i) s1;
          s3 = bookmark_deleteMany (\<lambda>b. b_docId b = Some i) s2
      in s3\<lparr>docs := filter (\<lambda>d. d_id d \<noteq> i) (docs s3),
            reports := filter (\<lambda>r. r_docId r \<noteq> Some i) (reports s3),
            notifications := filter (\<lambda>n. n_docId n \<noteq> Some i) (notifications s3)\<rparr>)"

text \<open>\<open>prisma.doc.delete({ where: { id } })\<close> throws when the document is absent.\<close>

definition doc_delete :: "string \<Rightarrow> store \<Rightarrow> exn + store" where
  "doc_delete i s =
     (if list_ex (\<lambda>d. d_id d = i) (docs s) then Inr (doc_cascade i s) else Inl PrismaError)"

text \<open>
  \<open>prisma.$transaction([...])\<close> runs the statements in order inside one database
  transaction: when all succeed their combined effect is committed, and when one throws
  nothing is. \<open>fault = Some k\<close> stands for a failure of the connection or the process
  after \<open>k\<close> statements have run; the uncommitted work is rolled back.
\<close>

fun transaction :: "(store \<Rightarrow> exn + store) list \<Rightarrow> nat option \<Rightarrow> store \<Rightarrow> exn + store" where
  "transaction [] fault s = (if fault = Some 0 then Inl PrismaError else Inr s)"
| "transaction (q # qs) fault s =
     (if fault = Some 0 then Inl PrismaError
      else
        (case q s of
           Inl e \<Rightarrow> Inl e
         | Inr s1 \<Rightarrow> transaction qs (map_option (\<lambda>k. k - 1) fault) s1))"

text \<open>
  \<open>deleteDoc\<close> is wrapped in \<open>asyncHandler\<close>; the caller is authenticated. The four
  statements of its transaction are listed as in the source.
\<close>

definition deleteDoc :: "string \<Rightarrow> string \<Rightarrow> nat option \<Rightarrow> store \<Rightarrow> reply \<times> store" where
  "deleteDoc userId i fault s =
     (case doc_findUnique i s of
        None \<Rightarrow> (Reply 404 ''Document not found'', s)
      | Some doc \<Rightarrow>
          (if d_authorId doc \<noteq> userId
           then (Reply 403 ''Not authorized to delete this document'', s)
           else
             (case transaction
                     [\<lambda>t. Inr (like_deleteMany (\<lambda>l. l_docId l = Some i) t),
                      \<lambda>t. Inr (comment_deleteMany (\<lambda>c. c_docId c = Some i) t),
                      \<lambda>t. Inr (bookmark_deleteMany (\<lambda>b. b_docId b = Some i) t),
                      doc_delete i] fault s of
                Inl e \<Rightarrow> (Raised e, s)
              | Inr s1 \<Rightarrow> (Reply 200 ''Document deleted successfully'', s1))))"

section \<open>Live channel gateway\<close>

text \<open>
  The state of one connection: the per-event counters of its rate limiter, the rooms the
  socket is in, and what it has logged.
\<close>

datatype log_entry = Warn string | Debug string

record conn =
  eventCounts :: "string \<rightharpoonup> nat"
  rooms :: "string set"
  logs :: "log_entry list"

text \<open>A socket starts in no room of the application, with empty counters.\<close>

definition new_conn :: conn where
  "new_conn = \<lparr>eventCounts = Map.empty, rooms = {}, logs = []\<rparr>"

text \<open>\<open>eventCounts.get(eventName) || 0\<close>.\<close>

definition count_of :: "string \<Rightarrow> conn \<Rightarrow> nat" where
  "count_of eventName c = (case eventCounts c eventName of None \<Rightarrow> 0 | Some n \<Rightarrow> n)"

definition checkRateLimit :: "string \<Rightarrow> nat \<Rightarrow> conn \<Rightarrow> bool \<times> conn" where
  "checkRateLimit eventName limit c =
     (let count = count_of eventName c in
      if limit \<le> count
      then (False, c\<lparr>logs := logs c @ [Warn ''Socket rate limit exceeded'']\<rparr>)
      else (True, c\<lparr>eventCounts := (eventCounts c)(eventName \<mapsto> count + 1)\<rparr>))"

text \<open>
  The payload of a client event is whatever the client sent. A room id is accepted when
  it is a non-empty string of at most 50 characters.
\<close>

definition valid_room_id :: "field \<Rightarrow> string option" where
  "valid_room_id v =
     (case v of
        Some (JStr i) \<Rightarrow> (if i = [] then None else if 50 < length i then None else Some i)
      | _ \<Rightarrow> None)"

text \<open>
  The events a connection handles: the three client events and the firing of the
  interval timer that clears the counters (\<open>setInterval(..., 60000)\<close>).
\<close>

datatype event =
  JoinUserRoom field | JoinContentRoom field | LeaveContentRoom field | ResetTick

definition on_join_user_room :: "field \<Rightarrow> conn \<Rightarrow> conn" where
  "on_join_user_room userId c =
     (case checkRateLimit ''join-user-room'' 5 c of
        (False, c1) \<Rightarrow> c1
      | (True, c1) \<Rightarrow>
          (case valid_room_id userId of
             None \<Rightarrow> c1\<lparr>logs := logs c1 @ [Warn ''Invalid userId in join-user-room'']\<rparr>
           | Some i \<Rightarrow>
               c1\<lparr>rooms := insert i (rooms c1),
                  logs := logs c1 @ [Debug ''Socket joined user room'']\<rparr>))"

definition on_join_content_room :: "field \<Rightarrow> conn \<Rightarrow> conn" where
  "on_join_content_room contentId c =
     (case checkRateLimit ''join-content-room'' 10 c of
        (False, c1) \<Rightarrow> c1
      | (True, c1) \<Rightarrow>
          (case valid_room_id contentId of
             None \<Rightarrow> c1\<lparr>logs := logs c1 @ [Warn ''Invalid contentId in join-content-room'']\<rparr>
           | Some i \<Rightarrow>
               c1\<lparr>rooms := insert i (rooms c1),
                  logs := logs c1 @ [Debug ''Socket joined content room'']\<rparr>))"

definition on_leave_content_room :: "field \<Rightarrow> conn \<Rightarrow> conn" where
  "on_leave_content_room contentId c =
     (case checkRateLimit ''leave-content-room'' 10 c of
        (False, c1) \<Rightarrow> c1
      | (True, c1) \<Rightarrow>
          (case valid_room_id contentId of
             None \<Rightarrow> c1
           | Some i \<Rightarrow>
               c1\<lparr>rooms := rooms c1 - {i},
                  logs := logs c1 @ [Debug ''Socket left content room'']\<rparr>))"

fun on_event :: "event \<Rightarrow> conn \<Rightarrow> conn" where
  "on_event (JoinUserRoom v) c = on_join_user_room v c"
| "on_event (JoinContentRoom v) c = on_join_content_room v c"
| "on_event (LeaveContentRoom v) c = on_leave_content_room v c"
| "on_event ResetTick c = c\<lparr>eventCounts := Map.empty\<rparr>"

text \<open>
  An event is processed when it passes the limiter of its handler; the timer tick is not
  a client event.
\<close>

fun processed :: "event \<Rightarrow> conn \<Rightarrow> bool" where
  "processed (JoinUserRoom v) c = fst (checkRateLimit ''join-user-room'' 5 c)"
| "processed (JoinContentRoom v) c = fst (checkRateLimit ''join-content-room'' 10 c)"
| "processed (LeaveContentRoom v) c = fst (checkRateLimit ''leave-content-room'' 10 c)"
| "processed ResetTick c = False"

text \<open>
  A connection's history is a list of events stamped with the time, in milliseconds since
  the connection was made, at which the event loop ran them. \<open>processed_events\<close> lists
  the stamped events that were processed, \<open>run_events\<close> gives the final state.
\<close>

fun run_events :: "(nat \<times> event) list \<Rightarrow> conn \<Rightarrow> conn" where
  "run_events [] c = c"
| "run_events ((t, e) # es) c = run_events es (on_event e c)"

fun processed_events :: "(nat \<times> event) list \<Rightarrow> conn \<Rightarrow> (nat \<times> event) list" where
  "processed_events [] c = []"
| "processed_events ((t, e) # es) c =
     (if processed e c then (t, e) # processed_events es (on_event e c)
      else processed_events es (on_event e c))"

text \<open>
  The timer fires every 60000 ms. In a history the stamps never decrease, the k-th tick is
  stamped 60000 * k, and no client event is stamped later than the next tick that is due.
\<close>

fun ticks_ok :: "nat \<Rightarrow> (nat \<times> event) list \<Rightarrow> bool" where
  "ticks_ok k [] = True"
| "ticks_ok k ((t, e) # h) =
     (if e = ResetTick then t = 60000 * k \<and> ticks_ok (Suc k) h
      else t \<le> 60000 * k \<and> ticks_ok k h)"

definition timeline_ok :: "(nat \<times> event) list \<Rightarrow> bool" where
  "timeline_ok h = (sorted (map fst h) \<and> ticks_ok 1 h)"

definition is_join_user :: "event \<Rightarrow> bool" where
  "is_join_user e = (case e of JoinUserRoom v \<Rightarrow> True | _ \<Rightarrow> False)"

definition is_join_content :: "event \<Rightarrow> bool" where
  "is_join_content e = (case e of JoinContentRoom v \<Rightarrow> True | _ \<Rightarrow> False)"

definition is_leave_content :: "event \<Rightarrow> bool" where
  "is_leave_content e = (case e of LeaveContentRoom v \<Rightarrow> True | _ \<Rightarrow> False)"

text \<open>
  The number of processed events of one kind whose stamps lie in the window of one
  minute that starts at \<open>t0\<close>.
\<close>

definition processed_in_window ::
  "(event \<Rightarrow> bool) \<Rightarrow> nat \<Rightarrow> (nat \<times> event) list \<Rightarrow> conn \<Rightarrow> nat" where
  "processed_in_window kind t0 h c =
     length (filter (\<lambda>(t, e). kind e \<and> t0 \<le> t \<and> t < t0 + 60000) (processed_events h c))"

text \<open>The same count over a whole history.\<close>

definition processed_count :: "(event \<Rightarrow> bool) \<Rightarrow> (nat \<times> event) list \<Rightarrow> conn \<Rightarrow> nat" where
  "processed_count kind h c = length (filter (\<lambda>(t, e). kind e) (processed_events h c))"

text \<open>A stretch of a history between two firings of the timer holds no tick.\<close>

definition tick_free :: "(nat \<times> event) list \<Rightarrow> bool" where
  "tick_free h = list_all (\<lambda>(t, e). e \<noteq> ResetTick) h"

section \<open>Identity provider callback\<close>

text \<open>
  A JavaScript \<open>Date\<close> is an object: it has an identity besides its time value, and
  \<open>===\<close> on two dates compares the identities.
\<close>

record date =
  ref :: nat
  ms :: int

definition strict_equal :: "date \<Rightarrow> date \<Rightarrow> bool" where
  "strict_equal a b = (ref a = ref b)"

text \<open>
  The user object a Prisma call returns. Every \<open>DateTime\<close> column of the row becomes a
  \<open>Date\<close> object of its own; \<open>heap\<close> is the next unused object identity.
\<close>

record user_obj =
  o_id :: string
  o_bio :: "string option"
  o_createdAt :: date
  o_updatedAt :: date

definition hydrate :: "nat \<Rightarrow> user_row \<Rightarrow> user_obj" where
  "hydrate heap u =
     \<lparr>o_id = u_id u, o_bio = bio u,
      o_createdAt = \<lparr>ref = heap, ms = u_createdAt u\<rparr>,
      o_updatedAt = \<lparr>ref = Suc heap, ms = u_updatedAt u\<rparr>\<rparr>"

text \<open>The profile the provider hands to the verify callback, as far as the callback reads it.\<close>

record github_profile =
  p_id :: string
  p_username :: string
  p_displayName :: "string option"
  p_emails :: "string list option"
  p_bio :: "string option"

text \<open>
  \<open>githubProfileSchema.safeParse\<close>: the username has 1 to 39 characters and every listed
  address is an e-mail address. The address test belongs to the validation library and
  is a parameter here.
\<close>

definition profile_valid :: "(string \<Rightarrow> bool) \<Rightarrow> github_profile \<Rightarrow> bool" where
  "profile_valid is_email p =
     (1 \<le> length (p_username p) \<and> length (p_username p) \<le> 39 \<and>
      (case p_emails p of None \<Rightarrow> True | Some es \<Rightarrow> list_all is_email es))"

text \<open>\<open>validatedProfile.emails?.[0]?.value\<close>.\<close>

definition first_email :: "github_profile \<Rightarrow> string option" where
  "first_email p = (case p_emails p of Some (e # es) \<Rightarrow> Some e | _ \<Rightarrow> None)"

text \<open>
  \<open>prisma.user.create\<close> and \<open>prisma.user.update\<close>: \<open>githubId\<close>, \<open>username\<close> and \<open>email\<close>
  are unique columns. Both stamp \<open>updatedAt\<close>; \<open>create\<close> stamps \<open>createdAt\<close> as well.
\<close>

definition user_create :: "string \<Rightarrow> string \<Rightarrow> string \<Rightarrow> string \<Rightarrow> int \<Rightarrow> store \<Rightarrow> exn + (user_row \<times> store)" where
  "user_create gid uname mail b now s =
     (if list_ex (\<lambda>u. githubId u = gid \<or> username u = uname \<or> email u = mail) (users s)
      then Inl PrismaError
      else (let row = \<lparr>u_id = cuid (next_id s), githubId = gid, username = uname, email = mail,
                       bio = Some b, u_createdAt = now, u_updatedAt = now\<rparr>
            in Inr (row, s\<lparr>users := users s @ [row], next_id := Suc (next_id s)\<rparr>)))"

definition user_update :: "string \<Rightarrow> string \<Rightarrow> string \<Rightarrow> string \<Rightarrow> string \<Rightarrow> int \<Rightarrow> store \<Rightarrow> exn + (user_row \<times> store)" where
  "user_update i gid uname mail b now s =
     (case find (\<lambda>u. u_id u = i) (users s) of
        None \<Rightarrow> Inl PrismaError
      | Some old \<Rightarrow>
          (if list_ex (\<lambda>u. u_id u \<noteq> i \<and> (githubId u = gid \<or> username u = uname \<or> email u = mail))
                (users s)
           then Inl PrismaError
           else (let row = old\<lparr>githubId := gid, username := uname, email := mail,
                              bio := Some b, u_updatedAt := now\<rparr>
                 in Inr (row, s\<lparr>users := map (\<lambda>u. if u_id u = i then row else u) (users s)\<rparr>))))"

text \<open>
  The verify callback of \<open>configurePassport\<close>. Besides the user object it hands to
  \<open>done\<close>, the model reports which branch produced it: \<open>True\<close> when the local record was
  created by this call, \<open>False\<close> when an existing record was updated.
\<close>

definition verify ::
  "(string \<Rightarrow> bool) \<Rightarrow> github_profile \<Rightarrow> int \<Rightarrow> nat \<Rightarrow> store \<Rightarrow> (exn + (user_obj \<times> bool)) \<times> store" where
  "verify is_email profile now heap s =
     (if \<not> profile_valid is_email profile then (Inl ProfileError, s)
      else
        (let user = find (\<lambda>u. githubId u = p_id profile) (users s);
             mail = (case first_email profile of None \<Rightarrow> [] | Some e \<Rightarrow> e);
             b = (case p_bio profile of None \<Rightarrow> [] | Some x \<Rightarrow> x)
         in if mail = [] then (Inl ProfileError, s)
            else
              (case user of
                 None \<Rightarrow>
                   (case user_create (p_id profile) (p_username profile) mail b now s of
                      Inl e \<Rightarrow> (Inl e, s)
                    | Inr (row, s1) \<Rightarrow> (Inr (hydrate heap row, True), s1))
               | Some old \<Rightarrow>
                   (case user_update (u_id old) (p_id profile) (p_username profile) mail b now s of
                      Inl e \<Rightarrow> (Inl e, s)
                    | Inr (row, s1) \<Rightarrow> (Inr (hydrate heap row, False), s1)))))"

text \<open>\<open>String.prototype.trim\<close>.\<close>

definition js_trim :: "string \<Rightarrow> string" where
  "js_trim x = rev (dropWhile js_space (rev (dropWhile js_space x)))"

datatype destination = Setup | Home

text \<open>
  \<open>githubCallback\<close>:
  \<open>isNewUser = !user.bio || user.bio.trim() === '' || user.createdAt === user.updatedAt\<close>.
  The first disjunct holds for a null and for an empty bio; the second is reached only
  with a non-empty one.
\<close>

definition isNewUser :: "user_obj \<Rightarrow> bool" where
  "isNewUser user =
     (case o_bio user of
        None \<Rightarrow> True
      | Some b \<Rightarrow>
          (if b = [] then True
           else if js_trim b = [] then True
           else strict_equal (o_createdAt user) (o_updatedAt user)))"

definition githubCallback :: "user_obj \<Rightarrow> destination" where
  "githubCallback user = (if isNewUser user then Setup else Home)"

text \<open>A whole sign-in: the verify callback, then the redirect, when verification succeeds.\<close>

definition sign_in ::
  "(string \<Rightarrow> bool) \<Rightarrow> github_profile \<Rightarrow> int \<Rightarrow> nat \<Rightarrow> store \<Rightarrow> (destination \<times> bool) option" where
  "sign_in is_email profile now heap s =
     (case fst (verify is_email profile now heap s) of
        Inl e \<Rightarrow> None
      | Inr (user, created) \<Rightarrow> Some (githubCallback user, created))"

section \<open>A small populated store\<close>

text \<open>
  Three users; a private and a public document of the first user, a snippet, an expired
  and a live bug report of the second user; comments, likes and bookmarks on the private
  document, one of the comments with a reply.
\<close>

definition alice :: user_row where
  "alice = \<lparr>u_id = ''calice001'', githubId = ''101'', username = ''alice'',
            email = ''alice@example.org'', bio = Some ''hello'',
            u_createdAt = 1000, u_updatedAt = 2000\<rparr>"

definition bobby :: user_row where
  "bobby = \<lparr>u_id = ''cbobby002'', githubId = ''102'', username = ''bobby'',
            email = ''bobby@example.org'', bio = Some [],
            u_createdAt = 1500, u_updatedAt = 1500\<rparr>"

definition carol :: user_row where
  "carol = \<lparr>u_id = ''ccarol003'', githubId = ''103'', username = ''carol'',
            email = ''carol@example.org'', bio = Some ''hi'',
            u_createdAt = 1700, u_updatedAt = 1800\<rparr>"

definition demo :: store where
  "demo =
     \<lparr>users = [alice, bobby, carol],
      snippets = [\<lparr>sn_id = ''csnippet1'', sn_authorId = ''calice001'', sn_isPublic = True\<rparr>],
      docs = [\<lparr>d_id = ''cdocument1'', d_title = ''Notes'', d_content = ''private notes'',
               d_isPublic = False, d_authorId = ''calice001'', d_updatedAt = 1000\<rparr>,
              \<lparr>d_id = ''cdocument2'', d_title = ''Guide'', d_content = ''public guide'',
               d_isPublic = True, d_authorId = ''calice001'', d_updatedAt = 1000\<rparr>],
      bugs = [\<lparr>bg_id = ''cbugbug01'', bg_authorId = ''cbobby002'', expiresAt = 5000\<rparr>,
              \<lparr>bg_id = ''cbugbug02'', bg_authorId = ''cbobby002'', expiresAt = 90000\<rparr>],
      comments = [\<lparr>c_id = ''ccomment1'', c_content = ''first'', c_authorId = ''calice001'',
                   c_snippetId = None, c_docId = Some ''cdocument1'', c_bugId = None,
                   c_parentId = None\<rparr>,
                  \<lparr>c_id = ''ccomment2'', c_content = ''reply'', c_authorId = ''cbobby002'',
                   c_snippetId = None, c_docId = None, c_bugId = None,
                   c_parentId = Some ''ccomment1''\<rparr>,
                  \<lparr>c_id = ''ccomment3'', c_content = ''other'', c_authorId = ''cbobby002'',
                   c_snippetId = None, c_docId = Some ''cdocument2'', c_bugId = None,
                   c_parentId = None\<rparr>],
      likes = [\<lparr>l_id = ''clikelike1'', l_userId = ''calice001'', l_snippetId = None,
                l_docId = Some ''cdocument1'', l_bugId = None\<rparr>,
               \<lparr>l_id = ''clikelike2'', l_userId = ''cbobby002'', l_snippetId = None,
                l_docId = Some ''cdocument2'', l_bugId = None\<rparr>],
      bookmarks = [\<lparr>b_id = ''cbookmark1'', b_userId = ''calice001'', b_snippetId = None,
                    b_docId = Some ''cdocument1'', b_bugId = None\<rparr>],
      follows = [],
      blockedUsers = [],
      reports = [],
      notifications = [],
      next_id = 0,
      io_ready = True,
      emitted = []\<rparr>"

text \<open>
  A report by the second user on the public document of the first, naming the third user
  as the reported party.
\<close>

definition report_doc2 :: report_body where
  "report_doc2 =
     \<lparr>rb_reportedUserId = Some (JStr ''ccarol003''), rb_reason = Some (JStr ''SPAM''),
      rb_description = None, rb_contentType = Some (JStr ''doc''),
      rb_contentId = Some (JStr ''cdocument2'')\<rparr>"

text \<open>Two bodies for a document update: one the schema accepts, one with an empty title.\<close>

definition good_doc_body :: doc_body where
  "good_doc_body =
     \<lparr>db_title = Some (JStr ''Taken over''), db_content = Some (JStr ''new text''),
      db_isPublic = Some (JBool True)\<rparr>"

definition bad_doc_body :: doc_body where
  "bad_doc_body =
     \<lparr>db_title = Some (JStr []), db_content = Some (JStr ''new text''),
      db_isPublic = Some (JBool True)\<rparr>"

text \<open>
  Comment bodies: one that gives \<open>snippetId\<close> as the empty string besides a \<open>docId\<close>,
  one on the expired bug report, and two more on that bug report that the schema
  refuses, the first for its empty content, the second for a second target.
\<close>

definition two_keys_body :: comment_body where
  "two_keys_body =
     \<lparr>cb_content = Some (JStr ''nice''), cb_snippetId = Some (JStr []),
      cb_docId = Some (JStr ''cdocument2''), cb_bugId = None, cb_parentId = None\<rparr>"

definition bug_comment_body :: comment_body where
  "bug_comment_body =
     \<lparr>cb_content = Some (JStr ''still broken''), cb_snippetId = None, cb_docId = None,
      cb_bugId = Some (JStr ''cbugbug01''), cb_parentId = None\<rparr>"

definition empty_content_bug_body :: comment_body where
  "empty_content_bug_body =
     \<lparr>cb_content = Some (JStr []), cb_snippetId = None, cb_docId = None,
      cb_bugId = Some (JStr ''cbugbug01''), cb_parentId = None\<rparr>"

definition two_targets_bug_body :: comment_body where
  "two_targets_bug_body =
     \<lparr>cb_content = Some (JStr ''still broken''), cb_snippetId = None,
      cb_docId = Some (JStr ''cdocument2''), cb_bugId = Some (JStr ''cbugbug01''),
      cb_parentId = None\<rparr>"

text \<open>
  A history of one connection: five joins of a user room in the last milliseconds of the
  first minute, the timer tick, and five more joins right after it.
\<close>

definition burst :: "(nat \<times> event) list" where
  "burst =
     [(59990, JoinUserRoom (Some (JStr ''calice001''))),
      (59991, JoinUserRoom (Some (JStr ''calice001''))),
      (59992, JoinUserRoom (Some (JStr ''calice001''))),
      (59993, JoinUserRoom (Some (JStr ''calice001''))),
      (59994, JoinUserRoom (Some (JStr ''calice001''))),
      (60000, ResetTick),
      (60001, JoinUserRoom (Some (JStr ''cbobby002''))),
      (60002, JoinUserRoom (Some (JStr ''cbobby002''))),
      (60003, JoinUserRoom (Some (JStr ''cbobby002''))),
      (60004, JoinUserRoom (Some (JStr ''cbobby002''))),
      (60005, JoinUserRoom (Some (JStr ''cbobby002'')))]"

text \<open>Seven joins of a user room within one stretch between ticks.\<close>

definition seven_joins :: "(nat \<times> event) list" where
  "seven_joins =
     [(100, JoinUserRoom (Some (JStr ''calice001''))),
      (200, JoinUserRoom (Some (JStr ''calice001''))),
      (300, JoinUserRoom (Some (JStr ''calice001''))),
      (400, JoinUserRoom (Some (JStr ''calice001''))),
      (500, JoinUserRoom (Some (JStr ''calice001''))),
      (600, JoinUserRoom (Some (JStr ''cbobby002''))),
      (700, JoinUserRoom (Some (JStr ''cbobby002'')))]"

text \<open>
  Two sign-ins through the identity provider: the first user comes back after clearing
  the bio of the provider account; a fourth person, who has a bio there, signs in for the
  first time.
\<close>

definition alice_returns :: github_profile where
  "alice_returns =
     \<lparr>p_id = ''101'', p_username = ''alice'', p_displayName = Some ''Alice'',
      p_emails = Some [''alice@example.org''], p_bio = None\<rparr>"

definition david_arrives :: github_profile where
  "david_arrives =
     \<lparr>p_id = ''104'', p_username = ''david'', p_displayName = None,
      p_emails = Some [''david@example.org''], p_bio = Some ''I write compilers''\<rparr>"

text \<open>A stand-in for the library's e-mail test, enough for the addresses above.\<close>

definition has_at :: "string \<Rightarrow> bool" where
  "has_at x = (CHR ''@'' \<in> set x)"

section \<open>Invariants used in the proofs\<close>

text \<open>
  What successive toggles preserve: both users exist and the ordered pair has at most one
  edge (the unique constraint on the pair).
\<close>

definition follow_inv :: "string \<Rightarrow> string \<Rightarrow> store \<Rightarrow> bool" where
  "follow_inv a b s =
     (user_exists a s \<and> user_exists b s \<and> length (filter (is_follow a b) (follows s)) \<le> 1)"

section \<open>Facts about lookups\<close>

lemma user_findUnique_exists:
  "user_exists uid s \<Longrightarrow> \<exists>u. user_findUnique uid s = Some u"
  by (cases "user_findUnique uid s")
     (auto simp: user_exists_def user_findUnique_def list_ex_iff find_None_iff)

lemma follow_findUnique_None:
  "(follow_findUnique a b s = None) = (\<not> following_edge a b s)"
  by (auto simp: follow_findUnique_def following_edge_def list_ex_iff find_None_iff)

lemma following_edge_filter:
  "following_edge a b s = (filter (is_follow a b) (follows s) \<noteq> [])"
  by (auto simp: following_edge_def list_ex_iff filter_empty_conv)

lemma filter_single_removed:
  assumes "length (filter P xs) \<le> 1" "r \<in> set xs" "P r"
  shows "filter P (filter (\<lambda>x. g x \<noteq> g r) xs) = []"
proof -
  have "r \<in> set (filter P xs)" using assms(2,3) by simp
  then have "filter P xs = [r]"
    using assms(1) by (cases "filter P xs") (auto simp: le_Suc_eq)
  then have "set (filter P xs) = {r}" by simp
  then have "\<forall>x\<in>set xs. P x \<longrightarrow> x = r" by auto
  then show ?thesis by (auto simp: filter_empty_conv)
qed

section \<open>The follow toggle\<close>

lemma toggleFollow_creates:
  assumes "a \<noteq> b" "user_exists a s" "user_exists b s" "\<not> following_edge a b s"
  shows "follows (snd (toggleFollow a b s)) =
           follows s @ [\<lparr>f_id = cuid (next_id s), followerId = a, followingId = b\<rparr>]"
    and "notifications (snd (toggleFollow a b s)) =
           notifications s @
             [\<lparr>n_id = cuid (Suc (next_id s)), n_type = FOLLOW, recipientId = b, senderId = a,
               n_snippetId = None, n_docId = None, n_bugId = None, n_commentId = None\<rparr>]"
    and "users (snd (toggleFollow a b s)) = users s"
proof -
  obtain u where u: "user_findUnique b s = Some u"
    using user_findUnique_exists [OF assms(3)] by blast
  have n: "follow_findUnique a b s = None"
    using assms(4) by (simp add: follow_findUnique_None)
  show "follows (snd (toggleFollow a b s)) =
           follows s @ [\<lparr>f_id = cuid (next_id s), followerId = a, followingId = b\<rparr>]"
    using assms(1,2,3) u n
    by (simp add: toggleFollow_def follow_create_def createNotification_def getIO_def
        emit_to_def Let_def)
  show "notifications (snd (toggleFollow a b s)) =
           notifications s @
             [\<lparr>n_id = cuid (Suc (next_id s)), n_type = FOLLOW, recipientId = b, senderId = a,
               n_snippetId = None, n_docId = None, n_bugId = None, n_commentId = None\<rparr>]"
    using assms(1,2,3) u n
    by (simp add: toggleFollow_def follow_create_def createNotification_def getIO_def
        emit_to_def Let_def)
  show "users (snd (toggleFollow a b s)) = users s"
    using assms(1,2,3) u n
    by (simp add: toggleFollow_def follow_create_def createNotification_def getIO_def
        emit_to_def Let_def)
qed

lemma toggleFollow_deletes:
  assumes "a \<noteq> b" "user_exists b s" "following_edge a b s"
  shows "\<exists>r. follow_findUnique a b s = Some r \<and> is_follow a b r \<and> r \<in> set (follows s) \<and>
           follows (snd (toggleFollow a b s)) = filter (\<lambda>x. f_id x \<noteq> f_id r) (follows s)"
    and "notifications (snd (toggleFollow a b s)) = notifications s"
    and "users (snd (toggleFollow a b s)) = users s"
proof -
  obtain u where u: "user_findUnique b s = Some u"
    using user_findUnique_exists [OF assms(2)] by blast
  obtain r where r: "follow_findUnique a b s = Some r"
    using assms(3) follow_findUnique_None [of a b s] by (cases "follow_findUnique a b s") auto
  have rp: "is_follow a b r" "r \<in> set (follows s)"
    using r by (auto simp: follow_findUnique_def find_Some_iff)
  have ex: "list_ex (\<lambda>x. f_id x = f_id r) (follows s)"
    using rp(2) by (auto simp: list_ex_iff)
  show "\<exists>r. follow_findUnique a b s = Some r \<and> is_follow a b r \<and> r \<in> set (follows s) \<and>
           follows (snd (toggleFollow a b s)) = filter (\<lambda>x. f_id x \<noteq> f_id r) (follows s)"
    using assms(1) u r rp ex by (simp add: toggleFollow_def follow_delete_def)
  show "notifications (snd (toggleFollow a b s)) = notifications s"
    using assms(1) u r ex by (simp add: toggleFollow_def follow_delete_def)
  show "users (snd (toggleFollow a b s)) = users s"
    using assms(1) u r ex by (simp add: toggleFollow_def follow_delete_def)
qed

lemma toggleFollow_step:
  assumes "a \<noteq> b" "follow_inv a b s"
  shows "follow_inv a b (snd (toggleFollow a b s)) \<and>
         following_edge a b (snd (toggleFollow a b s)) = (\<not> following_edge a b s) \<and>
         length (follow_notifications a b (snd (toggleFollow a b s))) =
           length (follow_notifications a b s) + (if following_edge a b s then 0 else 1)"
proof (cases "following_edge a b s")
  case False
  have ua: "user_exists a s" and ub: "user_exists b s"
    using assms(2) by (simp_all add: follow_inv_def)
  note c = toggleFollow_creates [OF assms(1) ua ub False]
  have e: "filter (is_follow a b) (follows s) = []"
    using False by (simp add: following_edge_filter)
  show ?thesis
    using False e ua ub
    by (simp add: follow_inv_def following_edge_filter c user_exists_def
        follow_notifications_def is_follow_def)
next
  case True
  have ua: "user_exists a s" and ub: "user_exists b s"
    and le: "length (filter (is_follow a b) (follows s)) \<le> 1"
    using assms(2) by (simp_all add: follow_inv_def)
  note d = toggleFollow_deletes [OF assms(1) ub True]
  obtain r where r: "is_follow a b r" "r \<in> set (follows s)"
    "follows (snd (toggleFollow a b s)) = filter (\<lambda>x. f_id x \<noteq> f_id r) (follows s)"
    using d(1) by blast
  have e: "filter (is_follow a b) (follows (snd (toggleFollow a b s))) = []"
    unfolding r(3) by (rule filter_single_removed [OF le r(2) r(1)])
  show ?thesis
    using True e ua ub
    by (simp add: follow_inv_def following_edge_filter d(2,3) user_exists_def
        follow_notifications_def)
qed

lemma toggle_times_inv:
  assumes "a \<noteq> b" "follow_inv a b s"
  shows "follow_inv a b (toggle_times n a b s) \<and>
         following_edge a b (toggle_times n a b s) = (following_edge a b s \<noteq> odd n) \<and>
         length (follow_notifications a b (toggle_times n a b s)) =
           length (follow_notifications a b s) +
             (if following_edge a b s then n div 2 else (n + 1) div 2)"
proof (induction n)
  case 0
  show ?case using assms(2) by simp
next
  case (Suc n)
  note st = toggleFollow_step [OF assms(1) conjunct1 [OF Suc]]
  show ?case
    using Suc st by (auto elim: oddE)
qed

text \<open>
  C2. For an ordered pair of distinct existing users with no edge between them, after n
  toggle calls the edge is present exactly when n is odd; the number of FOLLOW
  notifications from the follower to the followed user has grown by the number of
  creating calls; and call number n + 1 appends one FOLLOW notification when it creates
  the edge (n even) and leaves the notifications as they are when it deletes it (n odd).
\<close>

theorem toggleFollow_parity:
  assumes "follower \<noteq> following"
    and "user_exists follower s" and "user_exists following s"
    and "\<not> following_edge follower following s"
  shows "following_edge follower following (toggle_times n follower following s) = odd n \<and>
         length (follow_notifications follower following (toggle_times n follower following s)) =
           length (follow_notifications follower following s) + (n + 1) div 2 \<and>
         notifications (toggle_times (Suc n) follower following s) =
           (if even n
            then notifications (toggle_times n follower following s) @
                   [\<lparr>n_id = cuid (Suc (next_id (toggle_times n follower following s))),
                     n_type = FOLLOW, recipientId = following, senderId = follower,
                     n_snippetId = None, n_docId = None, n_bugId = None, n_commentId = None\<rparr>]
            else notifications (toggle_times n follower following s))"
proof -
  have inv: "follow_inv follower following s"
    using assms(2,3,4) by (simp add: follow_inv_def following_edge_filter)
  note t = toggle_times_inv [OF assms(1) inv, of n]
  let ?t = "toggle_times n follower following s"
  have i: "follow_inv follower following ?t" using t by simp
  have e: "following_edge follower following ?t = odd n" using t assms(4) by simp
  have ua: "user_exists follower ?t" and ub: "user_exists following ?t"
    using i by (simp_all add: follow_inv_def)
  have n: "notifications (toggle_times (Suc n) follower following s) =
           (if even n
            then notifications ?t @
                   [\<lparr>n_id = cuid (Suc (next_id ?t)),
                     n_type = FOLLOW, recipientId = following, senderId = follower,
                     n_snippetId = None, n_docId = None, n_bugId = None, n_commentId = None\<rparr>]
            else notifications ?t)"
  proof (cases "even n")
    case True
    then have "\<not> following_edge follower following ?t" using e by simp
    from toggleFollow_creates(2) [OF assms(1) ua ub this] True show ?thesis by simp
  next
    case False
    then have "following_edge follower following ?t" using e by simp
    from toggleFollow_deletes(2) [OF assms(1) ub this] False show ?thesis by simp
  qed
  show ?thesis using e t assms(4) n by simp
qed

theorem toggleFollow_parity_witness:
  "''cbobby002'' \<noteq> ''calice001'' \<and> user_exists ''cbobby002'' demo \<and>
   user_exists ''calice001'' demo \<and> \<not> following_edge ''cbobby002'' ''calice001'' demo \<and>
   following_edge ''cbobby002'' ''calice001''
     (toggle_times (Suc (Suc (Suc 0))) ''cbobby002'' ''calice001'' demo) \<and>
   length (follow_notifications ''cbobby002'' ''calice001''
     (toggle_times (Suc (Suc (Suc 0))) ''cbobby002'' ''calice001'' demo)) = 2"
proof -
  have h: "''cbobby002'' \<noteq> ''calice001''" "user_exists ''cbobby002'' demo"
    "user_exists ''calice001'' demo" "\<not> following_edge ''cbobby002'' ''calice001'' demo"
    by (simp_all add: user_exists_def following_edge_def demo_def alice_def bobby_def carol_def)
  have n0: "follow_notifications ''cbobby002'' ''calice001'' demo = []"
    by (simp add: follow_notifications_def demo_def)
  show ?thesis
    using h n0 toggleFollow_parity [OF h, of "Suc (Suc (Suc 0))"] by simp
qed

section \<open>Moderation: self targets, invalid bodies, reports on content\<close>

lemma is_cuid_nonempty: "is_cuid x \<Longrightarrow> x \<noteq> []"
  by (auto simp: is_cuid_def)

lemma z_cuid_optional_Some:
  "z_cuid_optional f = Some (Some x) \<Longrightarrow> is_cuid x"
  by (auto simp: z_cuid_optional_def split: option.splits json.splits if_splits)

lemma reportSchema_parse_fields:
  assumes "reportSchema_parse body = Inr v"
  shows "z_cuid_optional (rb_reportedUserId body) = Some (v_reportedUserId v)"
    and "z_cuid_optional (rb_contentId body) = Some (v_contentId v)"
  using assms
  by (auto simp: reportSchema_parse_def split: option.splits)

lemma content_column_Some:
  "content_column col (Some ct) (Some ci) = (if ct = col then Some ci else None)"
  by (simp add: content_column_def)

text \<open>
  C6. A follow toggle on the caller's own id, a block toggle whose body names the caller,
  and a report whose \<open>reportedUserId\<close> is the caller are all answered with an error
  status, and the store they return is the store they were given: no follow edge, block
  edge or report row is written. The status is 400 whenever the body passes its schema
  (the follow toggle has no body); a body that fails the schema is answered with 500.
\<close>

theorem self_targets_rejected:
  "toggleFollow caller caller s = (Reply 400 ''Cannot follow yourself'', s) \<and>
   toggleBlock caller \<lparr>bb_userId = Some (JStr caller)\<rparr> s =
     (if is_cuid caller then Reply 400 ''Cannot block yourself''
      else Reply 500 ''Failed to toggle block status'', s) \<and>
   createReport caller (body\<lparr>rb_reportedUserId := Some (JStr caller)\<rparr>) s =
     (case reportSchema_parse (body\<lparr>rb_reportedUserId := Some (JStr caller)\<rparr>) of
        Inl e \<Rightarrow> Reply 500 ''Failed to submit report''
      | Inr v \<Rightarrow> Reply 400 ''Cannot report yourself'', s)"
proof -
  have f: "toggleFollow caller caller s = (Reply 400 ''Cannot follow yourself'', s)"
    by (simp add: toggleFollow_def)
  have b: "toggleBlock caller \<lparr>bb_userId = Some (JStr caller)\<rparr> s =
     (if is_cuid caller then Reply 400 ''Cannot block yourself''
      else Reply 500 ''Failed to toggle block status'', s)"
    by (simp add: toggleBlock_def blockSchema_parse_def z_cuid_def)
  let ?b = "body\<lparr>rb_reportedUserId := Some (JStr caller)\<rparr>"
  have r: "createReport caller ?b s =
     (case reportSchema_parse ?b of
        Inl e \<Rightarrow> Reply 500 ''Failed to submit report''
      | Inr v \<Rightarrow> Reply 400 ''Cannot report yourself'', s)"
  proof (cases "reportSchema_parse ?b")
    case (Inl e)
    then show ?thesis by (simp add: createReport_def)
  next
    case (Inr v)
    have "z_cuid_optional (Some (JStr caller)) = Some (v_reportedUserId v)"
      using reportSchema_parse_fields(1) [OF Inr] by simp
    then have "v_reportedUserId v = Some caller" "is_cuid caller"
      by (auto simp: z_cuid_optional_def split: if_splits)
    then show ?thesis
      using Inr is_cuid_nonempty [of caller] by (simp add: createReport_def truthy_def)
  qed
  show ?thesis using f b r by simp
qed

text \<open>
  C7. The claim asks for a 4xx answer to every body that fails its schema. In the code a
  block toggle without \<open>userId\<close> and a report without \<open>reason\<close> are answered with 500,
  while a comment without \<open>content\<close> is answered with 400.
\<close>

theorem invalid_body_answers_500:
  "toggleBlock ''calice001'' \<lparr>bb_userId = None\<rparr> demo =
     (Reply 500 ''Failed to toggle block status'', demo) \<and>
   createReport ''calice001''
     \<lparr>rb_reportedUserId = Some (JStr ''cbobby002''), rb_reason = None, rb_description = None,
      rb_contentType = None, rb_contentId = None\<rparr> demo =
     (Reply 500 ''Failed to submit report'', demo) \<and>
   createComment ''calice001'' 0
     \<lparr>cb_content = None, cb_snippetId = None, cb_docId = Some (JStr ''cdocument2''),
      cb_bugId = None, cb_parentId = None\<rparr> demo =
     (Reply 400 ''Invalid data'', demo)"
  by (simp add: toggleBlock_def blockSchema_parse_def z_cuid_def createReport_def
      reportSchema_parse_def z_cuid_optional_def z_reason_def is_cuid_def js_space_def
      createComment_def commentSchema_parse_def z_string_def)

lemma createReport_on_content:
  assumes "reportSchema_parse body = Inr v"
    and "v_contentType v = Some ct" and "v_contentId v = Some ci"
    and "content_author ct ci s = Some author" and "author \<noteq> []"
  shows "createReport reporter body s =
     (if v_reportedUserId v = Some reporter then (Reply 400 ''Cannot report yourself'', s)
      else if author = reporter then (Reply 400 ''Cannot report your own content'', s)
      else
        (case report_create
                \<lparr>r_id = cuid (next_id s), r_reason = v_reason v,
                 r_description = v_description v, reporterId = reporter,
                 reportedId = author,
                 r_snippetId = (if ct = CSnippet then Some ci else None),
                 r_docId = (if ct = CDoc then Some ci else None),
                 r_bugId = (if ct = CBug then Some ci else None),
                 r_commentId = (if ct = CComment then Some ci else None)\<rparr> s of
           Inl e \<Rightarrow> (Reply 500 ''Failed to submit report'', s)
         | Inr s1 \<Rightarrow> (Reply 201 ''Report submitted successfully'', s1)))"
proof -
  have ci: "ci \<noteq> []"
    using reportSchema_parse_fields(2) [OF assms(1)] assms(3)
      z_cuid_optional_Some [of "rb_contentId body" ci] is_cuid_nonempty [of ci] by simp
  have ru: "truthy (v_reportedUserId v) = (v_reportedUserId v \<noteq> None)"
  proof (cases "v_reportedUserId v")
    case None
    then show ?thesis by (simp add: truthy_def)
  next
    case (Some x)
    then have "x \<noteq> []"
      using reportSchema_parse_fields(1) [OF assms(1)]
        z_cuid_optional_Some [of "rb_reportedUserId body" x] is_cuid_nonempty [of x] by simp
    then show ?thesis using Some by (simp add: truthy_def)
  qed
  have ta: "truthy (Some author)" using assms(5) by (simp add: truthy_def)
  show ?thesis
  proof (cases "v_reportedUserId v = Some reporter")
    case True
    then show ?thesis using assms(1) ru by (simp add: createReport_def)
  next
    case False
    show ?thesis
    proof (cases "author = reporter")
      case True
      then show ?thesis
        using False assms ci ta by (simp add: createReport_def Let_def)
    next
      case neq: False
      show ?thesis
        using False neq assms ci ta
        by (simp add: createReport_def Let_def submit_report_def content_column_Some)
    qed
  qed
qed

text \<open>
  C10. Let a report pass the schema and carry a content type and a content id that resolve
  to a row with a (non-empty) author id. Then: a report by that author is answered with
  400 and writes nothing; otherwise the only row the request can write is a report whose
  reported party is the content's author, whatever \<open>reportedUserId\<close> the caller supplied
  (a supplied id equal to the caller's own is rejected first); and whatever the outcome,
  the store is either untouched or extended by exactly one report naming the author.
\<close>

theorem report_on_content_names_author:
  assumes "reportSchema_parse body = Inr v"
    and "v_contentType v = Some ct" and "v_contentId v = Some ci"
    and "content_author ct ci s = Some author" and "author \<noteq> []"
  shows "createReport reporter body s =
     (if v_reportedUserId v = Some reporter then (Reply 400 ''Cannot report yourself'', s)
      else if author = reporter then (Reply 400 ''Cannot report your own content'', s)
      else
        (case report_create
                \<lparr>r_id = cuid (next_id s), r_reason = v_reason v,
                 r_description = v_description v, reporterId = reporter,
                 reportedId = author,
                 r_snippetId = (if ct = CSnippet then Some ci else None),
                 r_docId = (if ct = CDoc then Some ci else None),
                 r_bugId = (if ct = CBug then Some ci else None),
                 r_commentId = (if ct = CComment then Some ci else None)\<rparr> s of
           Inl e \<Rightarrow> (Reply 500 ''Failed to submit report'', s)
         | Inr s1 \<Rightarrow> (Reply 201 ''Report submitted successfully'', s1))) \<and>
     (snd (createReport reporter body s) = s \<or>
      (\<exists>row. reports (snd (createReport reporter body s)) = reports s @ [row] \<and>
             reportedId row = author \<and> reporterId row = reporter))"
  by (simp add: createReport_on_content [OF assms] report_create_def)

lemma report_doc2_parse:
  "reportSchema_parse report_doc2 =
     Inr \<lparr>v_reportedUserId = Some ''ccarol003'', v_reason = SPAM, v_description = None,
          v_contentType = Some CDoc, v_contentId = Some ''cdocument2''\<rparr>"
  by (simp add: reportSchema_parse_def report_doc2_def z_cuid_optional_def z_reason_def
      z_description_def z_contentType_optional_def is_cuid_def js_space_def)

theorem report_on_content_names_author_witness:
  "reportSchema_parse report_doc2 =
     Inr \<lparr>v_reportedUserId = Some ''ccarol003'', v_reason = SPAM, v_description = None,
          v_contentType = Some CDoc, v_contentId = Some ''cdocument2''\<rparr> \<and>
   content_author CDoc ''cdocument2'' demo = Some ''calice001'' \<and>
   createReport ''cbobby002'' report_doc2 demo =
     (Reply 201 ''Report submitted successfully'',
      demo\<lparr>reports :=
             [\<lparr>r_id = cuid 0, r_reason = SPAM, r_description = None,
               reporterId = ''cbobby002'', reportedId = ''calice001'', r_snippetId = None,
               r_docId = Some ''cdocument2'', r_bugId = None, r_commentId = None\<rparr>],
           next_id := 1\<rparr>)"
proof -
  have a: "content_author CDoc ''cdocument2'' demo = Some ''calice001''"
    by (simp add: content_author_def demo_def)
  have c: "report_create
             \<lparr>r_id = cuid 0, r_reason = SPAM, r_description = None,
               reporterId = ''cbobby002'', reportedId = ''calice001'', r_snippetId = None,
               r_docId = Some ''cdocument2'', r_bugId = None, r_commentId = None\<rparr> demo =
           Inr (demo\<lparr>reports :=
             [\<lparr>r_id = cuid 0, r_reason = SPAM, r_description = None,
               reporterId = ''cbobby002'', reportedId = ''calice001'', r_snippetId = None,
               r_docId = Some ''cdocument2'', r_bugId = None, r_commentId = None\<rparr>],
           next_id := 1\<rparr>)"
    by (simp add: report_create_def user_exists_def fk_ok_def snippet_ids_def doc_ids_def
        bug_ids_def comment_ids_def demo_def alice_def bobby_def carol_def)
  have n: "next_id demo = 0" by (simp add: demo_def)
  show ?thesis
    using report_on_content_names_author [OF report_doc2_parse _ _ a, of "''cbobby002''"] a c n
      report_doc2_parse
    by simp
qed

section \<open>Deleting a document\<close>

lemma purge_comments_sound:
  "set (purge_comments P cs) \<subseteq> set cs \<and> list_all (\<lambda>c. \<not> P c) (purge_comments P cs)"
proof (induction P cs rule: purge_comments.induct)
  case (1 P cs)
  show ?case
  proof (cases "filter P cs = []")
    case True
    then have "purge_comments P cs = cs" by (subst purge_comments.simps) simp
    then show ?thesis using True by (auto simp: filter_empty_conv list_all_iff)
  next
    case False
    note ih = "1.IH" [OF False]
    have eq: "purge_comments P cs =
                purge_comments (reply_to (filter P cs)) (filter (\<lambda>c. \<not> P c) cs)"
      using False by (subst purge_comments.simps) simp
    show ?thesis
      unfolding eq using ih by (auto simp: list_all_iff)
  qed
qed

lemma transaction_fault_early:
  "k \<le> length qs \<Longrightarrow> \<exists>e. transaction qs (Some k) s = Inl e"
proof (induction qs arbitrary: k s)
  case Nil
  then show ?case by simp
next
  case (Cons q qs)
  show ?case
  proof (cases k)
    case 0
    then show ?thesis by simp
  next
    case (Suc j)
    then have "j \<le> length qs" using Cons.prems by simp
    from Cons.IH [OF this] show ?thesis
      using Suc by (cases "q s") auto
  qed
qed

lemma transaction_fault_late:
  "length qs < k \<Longrightarrow> transaction qs (Some k) s = transaction qs None s"
proof (induction qs arbitrary: k s)
  case Nil
  then show ?case by simp
next
  case (Cons q qs)
  then obtain j where j: "k = Suc j" "length qs < j" by (cases k) auto
  show ?case
    using j Cons.IH [OF j(2)] by (cases "q s") auto
qed

lemma deleteDoc_owner:
  assumes "doc_findUnique i s = Some doc" "d_authorId doc = userId"
  shows "deleteDoc userId i fault s =
     (case transaction
             [\<lambda>t. Inr (like_deleteMany (\<lambda>l. l_docId l = Some i) t),
              \<lambda>t. Inr (comment_deleteMany (\<lambda>c. c_docId c = Some i) t),
              \<lambda>t. Inr (bookmark_deleteMany (\<lambda>b. b_docId b = Some i) t),
              doc_delete i] fault s of
        Inl e \<Rightarrow> (Raised e, s)
      | Inr s1 \<Rightarrow> (Reply 200 ''Document deleted successfully'', s1))"
  using assms by (simp add: deleteDoc_def)

lemma docs_deleteMany [simp]:
  "docs (like_deleteMany P s) = docs s"
  "docs (comment_deleteMany Q s) = docs s"
  "docs (bookmark_deleteMany R s) = docs s"
  by (simp_all add: like_deleteMany_def comment_deleteMany_def bookmark_deleteMany_def Let_def)

lemma doc_present:
  "doc_findUnique i s = Some doc \<Longrightarrow> list_ex (\<lambda>d. d_id d = i) (docs s)"
  by (auto simp: doc_findUnique_def find_Some_iff list_ex_iff)


lemma transaction_deleteDoc:
  assumes "list_ex (\<lambda>d. d_id d = i) (docs s)"
  shows "transaction
             [\<lambda>t. Inr (like_deleteMany (\<lambda>l. l_docId l = Some i) t),
              \<lambda>t. Inr (comment_deleteMany (\<lambda>c. c_docId c = Some i) t),
              \<lambda>t. Inr (bookmark_deleteMany (\<lambda>b. b_docId b = Some i) t),
              doc_delete i] None s =
         Inr (doc_cascade i
                (bookmark_deleteMany (\<lambda>b. b_docId b = Some i)
                   (comment_deleteMany (\<lambda>c. c_docId c = Some i)
                      (like_deleteMany (\<lambda>l. l_docId l = Some i) s))))"
  using assms by (simp add: doc_delete_def)

lemma doc_cascade_clean:
  shows "list_all (\<lambda>l. l_docId l \<noteq> Some i) (likes (doc_cascade i s))"
    and "list_all (\<lambda>c. c_docId c \<noteq> Some i) (comments (doc_cascade i s))"
    and "list_all (\<lambda>b. b_docId b \<noteq> Some i) (bookmarks (doc_cascade i s))"
    and "doc_findUnique i (doc_cascade i s) = None"
proof -
  show "list_all (\<lambda>l. l_docId l \<noteq> Some i) (likes (doc_cascade i s))"
    by (simp add: doc_cascade_def Let_def like_deleteMany_def
        comment_deleteMany_def bookmark_deleteMany_def list_all_iff)
  show "list_all (\<lambda>b. b_docId b \<noteq> Some i) (bookmarks (doc_cascade i s))"
    by (simp add: doc_cascade_def Let_def like_deleteMany_def
        comment_deleteMany_def bookmark_deleteMany_def list_all_iff)
  show "doc_findUnique i (doc_cascade i s) = None"
    by (simp add: doc_cascade_def Let_def like_deleteMany_def
        comment_deleteMany_def bookmark_deleteMany_def doc_findUnique_def find_None_iff)
  show "list_all (\<lambda>c. c_docId c \<noteq> Some i) (comments (doc_cascade i s))"
    using purge_comments_sound [of "\<lambda>c. c_docId c = Some i"]
    by (simp add: doc_cascade_def Let_def like_deleteMany_def
        comment_deleteMany_def bookmark_deleteMany_def)
qed

text \<open>
  C1. When the caller owns an existing document, the delete request answers 200 and the
  store it leaves has no like, no comment and no bookmark whose \<open>docId\<close> is that
  document, nor the document itself. The four statements form one unit: whatever failure
  interrupts the transaction, the request either fails with the store exactly as it was,
  or ends in the same store as the uninterrupted request.
\<close>

theorem deleteDoc_atomic:
  assumes "doc_findUnique i s = Some doc" and "d_authorId doc = userId"
  shows "fst (deleteDoc userId i None s) = Reply 200 ''Document deleted successfully'' \<and>
     list_all (\<lambda>l. l_docId l \<noteq> Some i) (likes (snd (deleteDoc userId i None s))) \<and>
     list_all (\<lambda>c. c_docId c \<noteq> Some i) (comments (snd (deleteDoc userId i None s))) \<and>
     list_all (\<lambda>b. b_docId b \<noteq> Some i) (bookmarks (snd (deleteDoc userId i None s))) \<and>
     doc_findUnique i (snd (deleteDoc userId i None s)) = None \<and>
     ((\<exists>e. deleteDoc userId i fault s = (Raised e, s)) \<or>
      deleteDoc userId i fault s = deleteDoc userId i None s)"
proof -
  note ex = doc_present [OF assms(1)]
  note d = deleteDoc_owner [OF assms]
  note tr = transaction_deleteDoc [OF ex]
  have ok: "deleteDoc userId i None s =
      (Reply 200 ''Document deleted successfully'',
       doc_cascade i
         (bookmark_deleteMany (\<lambda>b. b_docId b = Some i)
            (comment_deleteMany (\<lambda>c. c_docId c = Some i)
               (like_deleteMany (\<lambda>l. l_docId l = Some i) s))))"
    by (simp only: d tr sum.case)
  let ?qs = "[\<lambda>t. Inr (like_deleteMany (\<lambda>l. l_docId l = Some i) t),
              \<lambda>t. Inr (comment_deleteMany (\<lambda>c. c_docId c = Some i) t),
              \<lambda>t. Inr (bookmark_deleteMany (\<lambda>b. b_docId b = Some i) t),
              doc_delete i]"
  have at: "(\<exists>e. deleteDoc userId i fault s = (Raised e, s)) \<or>
      deleteDoc userId i fault s = deleteDoc userId i None s"
  proof (cases fault)
    case None
    then show ?thesis by simp
  next
    case (Some k)
    show ?thesis
    proof (cases "k \<le> 4")
      case True
      then have "k \<le> length ?qs" by simp
      from transaction_fault_early [OF this, of s]
      obtain e where "transaction ?qs (Some k) s = Inl e" by blast
      then show ?thesis using Some by (simp add: d)
    next
      case False
      then have "length ?qs < k" by simp
      from transaction_fault_late [OF this, of s]
      show ?thesis using Some by (simp add: d)
    qed
  qed
  show ?thesis
    using at by (simp add: ok doc_cascade_clean)
qed

lemma demo_doc1:
  "doc_findUnique ''cdocument1'' demo =
     Some \<lparr>d_id = ''cdocument1'', d_title = ''Notes'', d_content = ''private notes'',
           d_isPublic = False, d_authorId = ''calice001'', d_updatedAt = 1000\<rparr>"
  by (simp add: doc_findUnique_def demo_def)

lemma demo_deleted:
  "deleteDoc ''calice001'' ''cdocument1'' None demo =
     (Reply 200 ''Document deleted successfully'',
      demo\<lparr>docs := [\<lparr>d_id = ''cdocument2'', d_title = ''Guide'', d_content = ''public guide'',
               d_isPublic = True, d_authorId = ''calice001'', d_updatedAt = 1000\<rparr>],
           comments := [\<lparr>c_id = ''ccomment3'', c_content = ''other'', c_authorId = ''cbobby002'',
                   c_snippetId = None, c_docId = Some ''cdocument2'', c_bugId = None,
                   c_parentId = None\<rparr>],
           likes := [\<lparr>l_id = ''clikelike2'', l_userId = ''cbobby002'', l_snippetId = None,
                l_docId = Some ''cdocument2'', l_bugId = None\<rparr>],
           bookmarks := []\<rparr>)"
  by (simp add: deleteDoc_def doc_findUnique_def doc_delete_def doc_cascade_def
      comment_deleteMany_def like_deleteMany_def bookmark_deleteMany_def Let_def
      purge_comments.simps reply_to_def refers_to_def demo_def)

theorem deleteDoc_atomic_witness:
  "doc_findUnique ''cdocument1'' demo =
     Some \<lparr>d_id = ''cdocument1'', d_title = ''Notes'', d_content = ''private notes'',
           d_isPublic = False, d_authorId = ''calice001'', d_updatedAt = 1000\<rparr> \<and>
   deleteDoc ''calice001'' ''cdocument1'' None demo =
     (Reply 200 ''Document deleted successfully'',
      demo\<lparr>docs := [\<lparr>d_id = ''cdocument2'', d_title = ''Guide'', d_content = ''public guide'',
               d_isPublic = True, d_authorId = ''calice001'', d_updatedAt = 1000\<rparr>],
           comments := [\<lparr>c_id = ''ccomment3'', c_content = ''other'', c_authorId = ''cbobby002'',
                   c_snippetId = None, c_docId = Some ''cdocument2'', c_bugId = None,
                   c_parentId = None\<rparr>],
           likes := [\<lparr>l_id = ''clikelike2'', l_userId = ''cbobby002'', l_snippetId = None,
                l_docId = Some ''cdocument2'', l_bugId = None\<rparr>],
           bookmarks := []\<rparr>) \<and>
   list_all (\<lambda>c. c_docId c \<noteq> Some ''cdocument1'')
     (comments (snd (deleteDoc ''calice001'' ''cdocument1'' None demo))) \<and>
   deleteDoc ''calice001'' ''cdocument1'' (Some 2) demo = (Raised PrismaError, demo)"
proof -
  have f: "deleteDoc ''calice001'' ''cdocument1'' (Some 2) demo = (Raised PrismaError, demo)"
    by (simp add: deleteDoc_def demo_doc1)
  have c: "list_all (\<lambda>c. c_docId c \<noteq> Some ''cdocument1'')
     (comments (snd (deleteDoc ''calice001'' ''cdocument1'' None demo)))"
    using deleteDoc_atomic [OF demo_doc1, of "''calice001''" "Some 2"] by simp
  show ?thesis
    using c demo_doc1 f demo_deleted by simp
qed

section \<open>Access to documents by callers who do not own them\<close>

text \<open>
  C3, as stated, fails: the second user updates the first user's private document with an
  empty title. The body is parsed before the document is looked up, the validation error
  escapes the handler, and no 403 is sent.
\<close>

theorem updateDoc_invalid_body_counterexample:
  "map_option d_authorId (doc_findUnique ''cdocument1'' demo) = Some ''calice001'' \<and>
   updateDoc ''cbobby002'' ''cdocument1'' bad_doc_body 7000 demo = (Raised ZodError, demo) \<and>
   status_of (fst (updateDoc ''cbobby002'' ''cdocument1'' bad_doc_body 7000 demo)) \<noteq> Some 403"
  by (simp add: updateDoc_def docSchema_parse_def bad_doc_body_def z_string_def
      z_boolean_default_def demo_doc1)

text \<open>
  C3, amended. For a document and a caller who is not its author: reading it while it is
  private is answered with 403, for a signed-in and for an anonymous caller; deleting it
  is answered with 403 whatever its visibility; updating it with a body that passes the
  document schema is answered with 403 whatever its visibility, while a body that fails
  the schema raises the validation error before ownership is looked at. In every case
  the store, and so the document, is unchanged.
\<close>

theorem non_owner_denied:
  assumes "doc_findUnique i s = Some doc" and "d_authorId doc \<noteq> userId"
  shows "(\<not> d_isPublic doc \<longrightarrow>
            getDocById (Some userId) i s = Reply 403 ''Access denied to this document'' \<and>
            getDocById None i s = Reply 403 ''Access denied to this document'') \<and>
         updateDoc userId i body now s =
           (case docSchema_parse body of
              Inl e \<Rightarrow> Raised e
            | Inr v \<Rightarrow> Reply 403 ''Not authorized to update this document'', s) \<and>
         deleteDoc userId i fault s = (Reply 403 ''Not authorized to delete this document'', s)"
proof -
  have g: "\<not> d_isPublic doc \<longrightarrow>
            getDocById (Some userId) i s = Reply 403 ''Access denied to this document'' \<and>
            getDocById None i s = Reply 403 ''Access denied to this document''"
    using assms by (simp add: getDocById_def)
  have u: "updateDoc userId i body now s =
           (case docSchema_parse body of
              Inl e \<Rightarrow> Raised e
            | Inr v \<Rightarrow> Reply 403 ''Not authorized to update this document'', s)"
    using assms by (cases "docSchema_parse body") (simp_all add: updateDoc_def)
  have d: "deleteDoc userId i fault s =
           (Reply 403 ''Not authorized to delete this document'', s)"
    using assms by (simp add: deleteDoc_def)
  show ?thesis using g u d by simp
qed

theorem non_owner_denied_witness:
  "doc_findUnique ''cdocument1'' demo =
     Some \<lparr>d_id = ''cdocument1'', d_title = ''Notes'', d_content = ''private notes'',
           d_isPublic = False, d_authorId = ''calice001'', d_updatedAt = 1000\<rparr> \<and>
   ''calice001'' \<noteq> ''cbobby002'' \<and>
   getDocById (Some ''cbobby002'') ''cdocument1'' demo =
     Reply 403 ''Access denied to this document'' \<and>
   getDocById None ''cdocument1'' demo = Reply 403 ''Access denied to this document'' \<and>
   updateDoc ''cbobby002'' ''cdocument1'' good_doc_body 7000 demo =
     (Reply 403 ''Not authorized to update this document'', demo) \<and>
   deleteDoc ''cbobby002'' ''cdocument1'' None demo =
     (Reply 403 ''Not authorized to delete this document'', demo)"
proof -
  have p: "docSchema_parse good_doc_body =
             Inr \<lparr>dd_title = ''Taken over'', dd_content = ''new text'', dd_isPublic = True\<rparr>"
    by (simp add: docSchema_parse_def good_doc_body_def z_string_def z_boolean_default_def)
  show ?thesis
    using non_owner_denied [OF demo_doc1, of "''cbobby002''" good_doc_body 7000 None] p demo_doc1
    by simp
qed

section \<open>Creating comments\<close>

lemma z_string_optional_truthy:
  "z_string_optional f = Some x \<Longrightarrow> truthy x = sets_target f"
  by (auto simp: z_string_optional_def truthy_def sets_target_def
      split: option.splits json.splits)

lemma commentSchema_parse_Inr:
  assumes "commentSchema_parse body = Inr v"
  shows "z_string_optional (cb_snippetId body) = Some (cd_snippetId v)"
    and "z_string_optional (cb_docId body) = Some (cd_docId v)"
    and "z_string_optional (cb_bugId body) = Some (cd_bugId v)"
    and "length (targets v) = 1"
  using assms
  by (auto simp: commentSchema_parse_def Let_def split: option.splits if_splits)

text \<open>
  C4, as stated, fails when "sets" means that the key is present: a body that gives
  \<open>snippetId\<close> as the empty string besides a \<open>docId\<close> has two of the three keys, yet it
  passes the schema (the refinement counts truthy values only). The insert then violates
  the foreign key on \<open>snippetId\<close> and the answer is 500, not 400.
\<close>

theorem two_keys_counterexample:
  "length (filter present
     [cb_snippetId two_keys_body, cb_docId two_keys_body, cb_bugId two_keys_body]) = 2 \<and>
   commentSchema_parse two_keys_body =
     Inr \<lparr>cd_content = ''nice'', cd_snippetId = Some [], cd_docId = Some ''cdocument2'',
          cd_bugId = None, cd_parentId = None\<rparr> \<and>
   createComment ''cbobby002'' 7000 two_keys_body demo =
     (Reply 500 ''Internal server error'', demo)"
  by (simp add: two_keys_body_def present_def commentSchema_parse_def z_string_def
      z_string_optional_def targets_def truthy_def createComment_def check_snippet_def
      check_doc_def check_bug_def post_comment_def comment_create_def fk_ok_def
      snippet_ids_def demo_def)

text \<open>
  C4, amended. Count a target key as set when it is present with any value other than
  the empty string. A body that sets none or more than one of \<open>snippetId\<close>, \<open>docId\<close>,
  \<open>bugId\<close> is answered with 400 and the store is unchanged: no comment row is created.
\<close>

theorem comment_target_count:
  assumes "length (filter sets_target [cb_snippetId body, cb_docId body, cb_bugId body]) \<noteq> 1"
  shows "createComment sender now body s = (Reply 400 ''Invalid data'', s)"
proof (cases "commentSchema_parse body")
  case (Inl e)
  then show ?thesis by (simp add: createComment_def)
next
  case (Inr v)
  note p = commentSchema_parse_Inr [OF Inr]
  have "length (targets v) =
          length (filter sets_target [cb_snippetId body, cb_docId body, cb_bugId body])"
    using z_string_optional_truthy [OF p(1)] z_string_optional_truthy [OF p(2)]
      z_string_optional_truthy [OF p(3)]
    by (simp add: targets_def)
  then show ?thesis using p(4) assms by simp
qed

theorem comment_target_count_witness:
  "length (filter sets_target [Some (JStr ''csnippet1''), Some (JStr ''cdocument2''), None]) \<noteq> 1 \<and>
   createComment ''cbobby002'' 7000
     \<lparr>cb_content = Some (JStr ''nice''), cb_snippetId = Some (JStr ''csnippet1''),
      cb_docId = Some (JStr ''cdocument2''), cb_bugId = None, cb_parentId = None\<rparr> demo =
     (Reply 400 ''Invalid data'', demo) \<and>
   length (filter sets_target [None, None, None]) \<noteq> 1 \<and>
   createComment ''cbobby002'' 7000
     \<lparr>cb_content = Some (JStr ''nice''), cb_snippetId = None,
      cb_docId = None, cb_bugId = None, cb_parentId = None\<rparr> demo =
     (Reply 400 ''Invalid data'', demo)"
proof -
  have a: "length (filter sets_target
     [cb_snippetId \<lparr>cb_content = Some (JStr ''nice''), cb_snippetId = Some (JStr ''csnippet1''),
      cb_docId = Some (JStr ''cdocument2''), cb_bugId = None, cb_parentId = None\<rparr>,
      cb_docId \<lparr>cb_content = Some (JStr ''nice''), cb_snippetId = Some (JStr ''csnippet1''),
      cb_docId = Some (JStr ''cdocument2''), cb_bugId = None, cb_parentId = None\<rparr>,
      cb_bugId \<lparr>cb_content = Some (JStr ''nice''), cb_snippetId = Some (JStr ''csnippet1''),
      cb_docId = Some (JStr ''cdocument2''), cb_bugId = None, cb_parentId = None\<rparr>]) \<noteq> 1"
    by (simp add: sets_target_def)
  have b: "length (filter sets_target
     [cb_snippetId \<lparr>cb_content = Some (JStr ''nice''), cb_snippetId = None,
      cb_docId = None, cb_bugId = None, cb_parentId = None\<rparr>,
      cb_docId \<lparr>cb_content = Some (JStr ''nice''), cb_snippetId = None,
      cb_docId = None, cb_bugId = None, cb_parentId = None\<rparr>,
      cb_bugId \<lparr>cb_content = Some (JStr ''nice''), cb_snippetId = None,
      cb_docId = None, cb_bugId = None, cb_parentId = None\<rparr>]) \<noteq> 1"
    by (simp add: sets_target_def)
  show ?thesis
    using comment_target_count [OF a, of "''cbobby002''" 7000 demo]
      comment_target_count [OF b, of "''cbobby002''" 7000 demo]
    by (simp add: sets_target_def)
qed

lemma one_target_bug:
  assumes "length (targets v) = 1" "truthy (cd_bugId v)"
  shows "\<not> truthy (cd_snippetId v)" "\<not> truthy (cd_docId v)"
  using assms by (auto simp: targets_def split: if_splits)

lemma createComment_on_bug:
  assumes "commentSchema_parse body = Inr v" and "truthy (cd_bugId v)"
  shows "createComment sender now body s =
     (case find (\<lambda>r. Some (bg_id r) = cd_bugId v) (bugs s) of
        None \<Rightarrow> (Reply 404 ''Bug not found'', s)
      | Some bug \<Rightarrow>
          (if expiresAt bug < now then (Reply 410 ''Bug report has expired'', s)
           else post_comment sender v (cd_bugId v, Some (bg_authorId bug)) s))"
proof -
  note p = commentSchema_parse_Inr [OF assms(1)]
  note o = one_target_bug [OF p(4) assms(2)]
  show ?thesis
    using assms o
    by (simp add: createComment_def check_snippet_def check_doc_def check_bug_def
        split: option.splits)
qed

text \<open>
  C5, as stated, fails: the body is parsed before the bug is looked up. On the bug report
  that exists and expired at 5000, a comment sent at 7000 with empty content, and one
  that names a document besides the bug, are both answered with 400, not 410.
\<close>

theorem invalid_bug_comment_counterexample:
  "find (\<lambda>r. bg_id r = ''cbugbug01'') (bugs demo) =
     Some \<lparr>bg_id = ''cbugbug01'', bg_authorId = ''cbobby002'', expiresAt = 5000\<rparr> \<and>
   (5000 :: int) < 7000 \<and>
   cb_bugId empty_content_bug_body = Some (JStr ''cbugbug01'') \<and>
   createComment ''calice001'' 7000 empty_content_bug_body demo =
     (Reply 400 ''Invalid data'', demo) \<and>
   cb_bugId two_targets_bug_body = Some (JStr ''cbugbug01'') \<and>
   createComment ''calice001'' 7000 two_targets_bug_body demo =
     (Reply 400 ''Invalid data'', demo)"
  by (simp add: empty_content_bug_body_def two_targets_bug_body_def createComment_def
      commentSchema_parse_def z_string_def z_string_optional_def targets_def truthy_def
      demo_def)

text \<open>
  C5, amended. Take any comment request whose body gives \<open>bugId\<close> as a non-empty string.
  When the body fails the schema (its content is missing, empty or too long, a key has a
  value that is no string, or a second target is named) the answer is 400, before the
  bug is looked up. When the body passes the schema, the answer is 404 if no bug has that
  id and 410 if the bug exists and its expiry lies before the current time; 410 differs
  from 404. In each of these three cases the store is unchanged: no comment is created.
  (A bug that has not expired leads on to the insert.)
\<close>

theorem bug_comment_outcome:
  assumes "cb_bugId body = Some (JStr b)" and "b \<noteq> []"
  shows "createComment sender now body s =
     (case commentSchema_parse body of
        Inl e \<Rightarrow> (Reply 400 ''Invalid data'', s)
      | Inr v \<Rightarrow>
          (case find (\<lambda>r. bg_id r = b) (bugs s) of
             None \<Rightarrow> (Reply 404 ''Bug not found'', s)
           | Some bug \<Rightarrow>
               (if expiresAt bug < now then (Reply 410 ''Bug report has expired'', s)
                else post_comment sender v (Some b, Some (bg_authorId bug)) s)))"
proof (cases "commentSchema_parse body")
  case (Inl e)
  then show ?thesis by (simp add: createComment_def)
next
  case (Inr v)
  have "z_string_optional (cb_bugId body) = Some (cd_bugId v)"
    by (rule commentSchema_parse_Inr(3) [OF Inr])
  then have bg: "cd_bugId v = Some b"
    using assms(1) by (simp add: z_string_optional_def)
  have tr: "truthy (cd_bugId v)"
    using bg assms(2) by (simp add: truthy_def)
  show ?thesis
    using createComment_on_bug [OF Inr tr, of sender now s] Inr bg
    by (simp split: option.splits)
qed

theorem bug_comment_outcome_witness:
  "cb_bugId bug_comment_body = Some (JStr ''cbugbug01'') \<and> ''cbugbug01'' \<noteq> [] \<and>
   createComment ''calice001'' 7000 bug_comment_body demo =
     (Reply 410 ''Bug report has expired'', demo) \<and>
   cb_bugId (bug_comment_body\<lparr>cb_bugId := Some (JStr ''cbugbug99'')\<rparr>) =
     Some (JStr ''cbugbug99'') \<and> ''cbugbug99'' \<noteq> [] \<and>
   createComment ''calice001'' 7000
     (bug_comment_body\<lparr>cb_bugId := Some (JStr ''cbugbug99'')\<rparr>) demo =
     (Reply 404 ''Bug not found'', demo) \<and>
   cb_bugId empty_content_bug_body = Some (JStr ''cbugbug01'') \<and>
   createComment ''calice001'' 7000 empty_content_bug_body demo =
     (Reply 400 ''Invalid data'', demo)"
proof -
  have b1: "cb_bugId bug_comment_body = Some (JStr ''cbugbug01'')"
    by (simp add: bug_comment_body_def)
  have b2: "cb_bugId (bug_comment_body\<lparr>cb_bugId := Some (JStr ''cbugbug99'')\<rparr>) =
     Some (JStr ''cbugbug99'')"
    by simp
  have b3: "cb_bugId empty_content_bug_body = Some (JStr ''cbugbug01'')"
    by (simp add: empty_content_bug_body_def)
  have n1: "''cbugbug01'' \<noteq> []" and n2: "''cbugbug99'' \<noteq> []"
    by simp_all
  have p: "commentSchema_parse bug_comment_body =
     Inr \<lparr>cd_content = ''still broken'', cd_snippetId = None, cd_docId = None,
          cd_bugId = Some ''cbugbug01'', cd_parentId = None\<rparr>"
    by (simp add: bug_comment_body_def commentSchema_parse_def z_string_def
      z_string_optional_def targets_def truthy_def)
  have q: "commentSchema_parse (bug_comment_body\<lparr>cb_bugId := Some (JStr ''cbugbug99'')\<rparr>) =
     Inr \<lparr>cd_content = ''still broken'', cd_snippetId = None, cd_docId = None,
          cd_bugId = Some ''cbugbug99'', cd_parentId = None\<rparr>"
    by (simp add: bug_comment_body_def commentSchema_parse_def z_string_def
      z_string_optional_def targets_def truthy_def)
  have r: "commentSchema_parse empty_content_bug_body = Inl ZodError"
    by (simp add: empty_content_bug_body_def commentSchema_parse_def z_string_def
      z_string_optional_def targets_def truthy_def)
  have f1: "find (\<lambda>r. bg_id r = ''cbugbug01'') (bugs demo) =
     Some \<lparr>bg_id = ''cbugbug01'', bg_authorId = ''cbobby002'', expiresAt = 5000\<rparr>"
    by (simp add: demo_def)
  have f2: "find (\<lambda>r. bg_id r = ''cbugbug99'') (bugs demo) = None"
    by (simp add: demo_def)
  show ?thesis
    using bug_comment_outcome [OF b1 n1, of "''calice001''" 7000 demo]
      bug_comment_outcome [OF b2 n2, of "''calice001''" 7000 demo]
      bug_comment_outcome [OF b3 n1, of "''calice001''" 7000 demo]
      b1 b3 p q r f1 f2
    by simp
qed

section \<open>The rate limiter of a connection\<close>

lemma count_of_checkRateLimit:
  "count_of n (snd (checkRateLimit name limit c)) =
     (if n = name \<and> count_of name c < limit then count_of name c + 1 else count_of n c)"
  by (auto simp: checkRateLimit_def count_of_def Let_def)

lemma fst_checkRateLimit:
  "fst (checkRateLimit name limit c) = (count_of name c < limit)"
  by (auto simp: checkRateLimit_def Let_def)

lemma eventCounts_on_join_user_room:
  "eventCounts (on_join_user_room v c) = eventCounts (snd (checkRateLimit ''join-user-room'' 5 c))"
  by (cases "checkRateLimit ''join-user-room'' 5 c")
     (auto simp: on_join_user_room_def split: option.splits bool.splits)

lemma eventCounts_on_join_content_room:
  "eventCounts (on_join_content_room v c) =
     eventCounts (snd (checkRateLimit ''join-content-room'' 10 c))"
  by (cases "checkRateLimit ''join-content-room'' 10 c")
     (auto simp: on_join_content_room_def split: option.splits bool.splits)

lemma eventCounts_on_leave_content_room:
  "eventCounts (on_leave_content_room v c) =
     eventCounts (snd (checkRateLimit ''leave-content-room'' 10 c))"
  by (cases "checkRateLimit ''leave-content-room'' 10 c")
     (auto simp: on_leave_content_room_def split: option.splits bool.splits)

lemma count_of_cong: "eventCounts a = eventCounts b \<Longrightarrow> count_of n a = count_of n b"
  by (simp add: count_of_def)

lemma count_of_on_event:
  assumes "e \<noteq> ResetTick"
  shows "count_of n (on_event e c) =
     (case e of
        JoinUserRoom v \<Rightarrow>
          (if n = ''join-user-room'' \<and> count_of n c < 5 then count_of n c + 1 else count_of n c)
      | JoinContentRoom v \<Rightarrow>
          (if n = ''join-content-room'' \<and> count_of n c < 10 then count_of n c + 1 else count_of n c)
      | LeaveContentRoom v \<Rightarrow>
          (if n = ''leave-content-room'' \<and> count_of n c < 10 then count_of n c + 1 else count_of n c)
      | ResetTick \<Rightarrow> 0)"
proof (cases e)
  case (JoinUserRoom v)
  show ?thesis
    unfolding JoinUserRoom
    using count_of_cong [OF eventCounts_on_join_user_room, of n v c]
    by (simp add: count_of_checkRateLimit)
next
  case (JoinContentRoom v)
  show ?thesis
    unfolding JoinContentRoom
    using count_of_cong [OF eventCounts_on_join_content_room, of n v c]
    by (simp add: count_of_checkRateLimit)
next
  case (LeaveContentRoom v)
  show ?thesis
    unfolding LeaveContentRoom
    using count_of_cong [OF eventCounts_on_leave_content_room, of n v c]
    by (simp add: count_of_checkRateLimit)
next
  case ResetTick
  then show ?thesis using assms by simp
qed

lemma processed_count_Cons:
  "processed_count kind ((t, e) # h) c =
     (if processed e c \<and> kind e then 1 else 0) + processed_count kind h (on_event e c)"
  by (simp add: processed_count_def)

lemma processed_count_Nil: "processed_count kind [] c = 0"
  by (simp add: processed_count_def)

lemma join_user_bound:
  "tick_free h \<Longrightarrow>
   processed_count is_join_user h c \<le> 5 - count_of ''join-user-room'' c"
proof (induction h arbitrary: c)
  case Nil
  show ?case by (simp add: processed_count_Nil)
next
  case (Cons x h)
  obtain t e where x: "x = (t, e)" by (cases x)
  have tf: "tick_free h" and ne: "e \<noteq> ResetTick"
    using Cons.prems x by (simp_all add: tick_free_def)
  note ih = Cons.IH [OF tf, of "on_event e c"]
  note co = count_of_on_event [OF ne, of "''join-user-room''" c]
  show ?case
    using ih co ne
    by (cases e) (auto simp: x processed_count_Cons is_join_user_def fst_checkRateLimit)
qed

lemma join_content_bound:
  "tick_free h \<Longrightarrow>
   processed_count is_join_content h c \<le> 10 - count_of ''join-content-room'' c"
proof (induction h arbitrary: c)
  case Nil
  show ?case by (simp add: processed_count_Nil)
next
  case (Cons x h)
  obtain t e where x: "x = (t, e)" by (cases x)
  have tf: "tick_free h" and ne: "e \<noteq> ResetTick"
    using Cons.prems x by (simp_all add: tick_free_def)
  note ih = Cons.IH [OF tf, of "on_event e c"]
  note co = count_of_on_event [OF ne, of "''join-content-room''" c]
  show ?case
    using ih co ne
    by (cases e) (auto simp: x processed_count_Cons is_join_content_def fst_checkRateLimit)
qed

lemma leave_content_bound:
  "tick_free h \<Longrightarrow>
   processed_count is_leave_content h c \<le> 10 - count_of ''leave-content-room'' c"
proof (induction h arbitrary: c)
  case Nil
  show ?case by (simp add: processed_count_Nil)
next
  case (Cons x h)
  obtain t e where x: "x = (t, e)" by (cases x)
  have tf: "tick_free h" and ne: "e \<noteq> ResetTick"
    using Cons.prems x by (simp_all add: tick_free_def)
  note ih = Cons.IH [OF tf, of "on_event e c"]
  note co = count_of_on_event [OF ne, of "''leave-content-room''" c]
  show ?case
    using ih co ne
    by (cases e) (auto simp: x processed_count_Cons is_leave_content_def fst_checkRateLimit)
qed

lemma run_events_append:
  "run_events (a @ b) c = run_events b (run_events a c)"
  by (induction a arbitrary: c) auto

lemma dropped_event:
  assumes "\<not> processed e c" "e \<noteq> ResetTick"
  shows "on_event e c = c\<lparr>logs := logs c @ [Warn ''Socket rate limit exceeded'']\<rparr>"
  using assms
  by (cases e)
     (auto simp: on_join_user_room_def on_join_content_room_def on_leave_content_room_def
        checkRateLimit_def Let_def split: if_splits)

text \<open>
  C8, as stated, fails. The counters are cleared by a timer every 60000 ms, so the limit
  holds per stretch between ticks, not per rolling minute: of ten joins of a user room
  sent within 15 ms around the first tick, all ten are processed.
\<close>

theorem burst_counterexample:
  "timeline_ok burst \<and> processed_in_window is_join_user 59990 burst new_conn = 10"
  by (simp add: timeline_ok_def burst_def processed_in_window_def new_conn_def
      checkRateLimit_def count_of_def on_join_user_room_def valid_room_id_def
      is_join_user_def Let_def)

text \<open>
  C8, amended. In every stretch of a connection's history between two consecutive firings
  of the timer that clears the counters (it fires every 60 s, counted from the moment of
  connection), and in the stretch before its first firing, at most 5 join-user-room events
  and at most 10 join-content-room and 10 leave-content-room events are processed. An
  event beyond the cap is dropped: the handler adds one warning to the log and changes
  nothing else, neither the rooms nor the counters; nothing is queued or retried.
\<close>

theorem rate_limit_between_ticks:
  assumes "tick_free h"
  shows "processed_count is_join_user h new_conn \<le> 5 \<and>
         processed_count is_join_content h new_conn \<le> 10 \<and>
         processed_count is_leave_content h new_conn \<le> 10 \<and>
         processed_count is_join_user h (run_events (before @ [(t, ResetTick)]) start) \<le> 5 \<and>
         processed_count is_join_content h (run_events (before @ [(t, ResetTick)]) start) \<le> 10 \<and>
         processed_count is_leave_content h (run_events (before @ [(t, ResetTick)]) start) \<le> 10 \<and>
         (\<not> processed e c \<and> e \<noteq> ResetTick \<longrightarrow>
            on_event e c = c\<lparr>logs := logs c @ [Warn ''Socket rate limit exceeded'']\<rparr>)"
proof -
  have n: "count_of name new_conn = 0" for name
    by (simp add: count_of_def new_conn_def)
  have r: "count_of name (run_events (before @ [(t, ResetTick)]) start) = 0" for name
    by (simp add: run_events_append count_of_def)
  show ?thesis
    using join_user_bound [OF assms, of new_conn] join_content_bound [OF assms, of new_conn]
      leave_content_bound [OF assms, of new_conn]
      join_user_bound [OF assms, of "run_events (before @ [(t, ResetTick)]) start"]
      join_content_bound [OF assms, of "run_events (before @ [(t, ResetTick)]) start"]
      leave_content_bound [OF assms, of "run_events (before @ [(t, ResetTick)]) start"]
      dropped_event [of e c]
    by (simp add: n r)
qed

theorem rate_limit_between_ticks_witness:
  "tick_free seven_joins \<and> processed_count is_join_user seven_joins new_conn = 5 \<and>
   \<not> processed (JoinUserRoom (Some (JStr ''cbobby002'')))
       (run_events (take 5 seven_joins) new_conn) \<and>
   JoinUserRoom (Some (JStr ''cbobby002'')) \<noteq> ResetTick \<and>
   rooms (on_event (JoinUserRoom (Some (JStr ''cbobby002'')))
            (run_events (take 5 seven_joins) new_conn)) = {''calice001''} \<and>
   processed_count is_join_user seven_joins (run_events [(60000, ResetTick)] new_conn) \<le> 5"
proof -
  have tf: "tick_free seven_joins"
    by (simp add: tick_free_def seven_joins_def)
  have p: "processed_count is_join_user seven_joins new_conn = 5"
    by (simp add: seven_joins_def processed_count_def new_conn_def
      checkRateLimit_def count_of_def on_join_user_room_def valid_room_id_def
      is_join_user_def Let_def)
  have five: "run_events (take 5 seven_joins) new_conn =
      \<lparr>eventCounts = [''join-user-room'' \<mapsto> 5], rooms = {''calice001''},
       logs = replicate 5 (Debug ''Socket joined user room'')\<rparr>"
    by (simp add: seven_joins_def new_conn_def numeral_eq_Suc
      checkRateLimit_def count_of_def on_join_user_room_def valid_room_id_def Let_def)
  have np: "\<not> processed (JoinUserRoom (Some (JStr ''cbobby002'')))
       (run_events (take 5 seven_joins) new_conn)"
    by (simp add: five checkRateLimit_def count_of_def)
  show ?thesis
    using tf p np
      rate_limit_between_ticks [OF tf, where before = "[]" and t = 60000 and start = new_conn
        and c = "run_events (take 5 seven_joins) new_conn"
        and e = "JoinUserRoom (Some (JStr ''cbobby002''))"]
    by (simp add: five)
qed


section \<open>The redirect after sign-in\<close>

text \<open>
  The two dates of a user object are distinct objects, so the third disjunct of
  \<open>isNewUser\<close> never holds: the redirect depends on the bio alone.
\<close>

lemma isNewUser_hydrate:
  "isNewUser (hydrate heap u) =
     (case bio u of None \<Rightarrow> True | Some b \<Rightarrow> js_trim b = [])"
  by (auto simp: isNewUser_def hydrate_def strict_equal_def js_trim_def split: option.splits)

text \<open>
  C9. The claim ties the setup destination to the record having been created by this
  callback. In the code a returning user whose provider bio is empty is sent to setup
  although the record was only updated, and a first-time user who has a bio is sent home
  although the record was just created.
\<close>

theorem redirect_ignores_creation:
  "sign_in has_at alice_returns 9000 0 demo = Some (Setup, False) \<and>
   sign_in has_at david_arrives 9000 0 demo = Some (Home, True)"
  by (simp add: sign_in_def verify_def profile_valid_def first_email_def has_at_def
      alice_returns_def david_arrives_def demo_def alice_def bobby_def carol_def
      user_create_def user_update_def githubCallback_def isNewUser_hydrate js_trim_def
      js_space_def Let_def)

end
